theory Spec2Isabelle
  imports Main "HOL-Library.Sublist"
begin

section \<open>JavaScript strings\<close>

text \<open>
  A JavaScript string is a sequence of UTF-16 code units, so \<open>length\<close> is the
  source's \<open>.length\<close>. Literals of the source are written \<open>str ''...''\<close>; the
  bullet U+2022 is the code unit 8226.
\<close>

type_synonym jsstring = "nat list"

definition str :: "string \<Rightarrow> jsstring" where
  "str s = map of_char s"

definition bullet :: jsstring where
  "bullet = [8226]"

text \<open>White space and line terminators: what \<open>trim\<close> strips and \<open>\s\<close> matches.\<close>

definition isWhiteSpace :: "nat \<Rightarrow> bool" where
  "isWhiteSpace c =
     (c = 9 \<or> c = 10 \<or> c = 11 \<or> c = 12 \<or> c = 13 \<or> c = 32 \<or> c = 160 \<or> c = 5760 \<or>
      (8192 \<le> c \<and> c \<le> 8202) \<or> c = 8232 \<or> c = 8233 \<or> c = 8239 \<or> c = 8287 \<or>
      c = 12288 \<or> c = 65279)"

definition trim :: "jsstring \<Rightarrow> jsstring" where
  "trim s = rev (dropWhile isWhiteSpace (rev (dropWhile isWhiteSpace s)))"

text \<open>\<open>text.includes(sub)\<close>: \<open>sub\<close> occurs in \<open>text\<close> as a contiguous run.\<close>

fun jsIncludes :: "jsstring \<Rightarrow> jsstring \<Rightarrow> bool" where
  "jsIncludes [] sub = (sub = [])"
| "jsIncludes (c # cs) sub = (prefix sub (c # cs) \<or> jsIncludes cs sub)"

definition startsWith :: "jsstring \<Rightarrow> jsstring \<Rightarrow> bool" where
  "startsWith text pre = prefix pre text"

text \<open>
  \<open>toLowerCase\<close> on the letters A-Z; other code units are left as they are. Every use
  of a lower-cased text in the source is a search for an ASCII keyword, a digit run or
  white space, and no code unit outside A-Z lower-cases to a run that completes one of
  those keywords, so the searches give the same answers as with the full Unicode mapping.
\<close>

definition lowerUnit :: "nat \<Rightarrow> nat" where
  "lowerUnit c = (if 65 \<le> c \<and> c \<le> 90 then c + 32 else c)"

definition toLowerCase :: "jsstring \<Rightarrow> jsstring" where
  "toLowerCase s = map lowerUnit s"

definition isDigit :: "nat \<Rightarrow> bool" where
  "isDigit c = (48 \<le> c \<and> c \<le> 57)"

text \<open>\<open>text.match(/\d+/)\<close> as a truth value.\<close>

definition hasDigit :: "jsstring \<Rightarrow> bool" where
  "hasDigit text = list_ex isDigit text"

text \<open>
  The longest prefix of the shape \<open>\d+(?:,\d+)*\<close> of a text that starts with a digit:
  digits, and a comma only when a digit follows it.
\<close>

fun numberPrefix :: "jsstring \<Rightarrow> jsstring" where
  "numberPrefix [] = []"
| "numberPrefix (c # cs) =
     (if isDigit c then c # numberPrefix cs
      else if c = 44 \<and> (case cs of [] \<Rightarrow> False | d # _ \<Rightarrow> isDigit d) then c # numberPrefix cs
      else [])"

text \<open>
  \<open>text.match(/(\d+(?:,\d+)*)/)\<close>: the match starts at the first digit and is greedy;
  the result is group 1, or \<open>None\<close> for \<open>null\<close>.
\<close>

definition matchNumber :: "jsstring \<Rightarrow> jsstring option" where
  "matchNumber text =
     (case dropWhile (\<lambda>c. \<not> isDigit c) text of
        [] \<Rightarrow> None
      | c # cs \<Rightarrow> Some (numberPrefix (c # cs)))"

text \<open>
  \<open>text.match(/(\d+(?:,\d+)*)\+?\s*word/i)\<close>. At one start position the number is taken
  greedily, then an optional plus sign, then all white space, then the word, compared
  without regard to the case of A-Z. A shorter number, a skipped plus sign or less white
  space would leave a digit, a comma, a plus sign or white space in front of the word,
  so backtracking finds nothing the greedy reading misses. The search returns group 1 of
  the leftmost match.
\<close>

definition matchCountAt :: "jsstring \<Rightarrow> jsstring \<Rightarrow> jsstring option" where
  "matchCountAt word text =
     (case text of
        [] \<Rightarrow> None
      | c # cs \<Rightarrow>
          if isDigit c then
            (let num = numberPrefix (c # cs);
                 afterNum = drop (length num) (c # cs);
                 afterPlus = (case afterNum of [] \<Rightarrow> [] | p # ps \<Rightarrow> if p = 43 then ps else p # ps);
                 afterSpace = dropWhile isWhiteSpace afterPlus
             in if prefix (toLowerCase word) (toLowerCase afterSpace) then Some num else None)
          else None)"

fun matchCount :: "jsstring \<Rightarrow> jsstring \<Rightarrow> jsstring option" where
  "matchCount word [] = None"
| "matchCount word (c # cs) =
     (case matchCountAt word (c # cs) of
        Some num \<Rightarrow> Some num
      | None \<Rightarrow> matchCount word cs)"

text \<open>
  \<open>parseInt(m.replace(/,/g, ''))\<close> for a match \<open>m\<close> of digits and commas. The value is
  a natural number; where a double would round it (past 2^53) the value is far above both
  sanity ceilings and is reset to 0 either way, and it is 0 exactly when all digits are 0.
\<close>

definition removeCommas :: "jsstring \<Rightarrow> jsstring" where
  "removeCommas s = filter (\<lambda>c. c \<noteq> 44) s"

definition parseInt :: "jsstring \<Rightarrow> nat" where
  "parseInt s = foldl (\<lambda>n c. 10 * n + (c - 48)) 0 (takeWhile isDigit s)"

fun natToString :: "nat \<Rightarrow> jsstring" where
  "natToString n = (if n < 10 then [48 + n] else natToString (n div 10) @ [48 + n mod 10])"

section \<open>The page as the extractor sees it\<close>

text \<open>
  The extractor reads the page through \<open>querySelector\<close> and \<open>querySelectorAll\<close> only.
  A page is the answer to every selector: the matching elements in document order, or
  the message of the exception the call throws. An element carries its text content, its
  \<open>src\<close> (empty when it has none) and the answers to queries below it.
\<close>

datatype element =
  Element (textContent: jsstring) (src: jsstring) (within: "jsstring \<Rightarrow> jsstring + element list")

type_synonym document = "jsstring \<Rightarrow> jsstring + element list"

definition querySelectorAll :: "document \<Rightarrow> jsstring \<Rightarrow> jsstring + element list" where
  "querySelectorAll doc selector = doc selector"

definition querySelector :: "document \<Rightarrow> jsstring \<Rightarrow> jsstring + element option" where
  "querySelector doc selector =
     (case doc selector of
        Inl e \<Rightarrow> Inl e
      | Inr [] \<Rightarrow> Inr None
      | Inr (el # _) \<Rightarrow> Inr (Some el))"

section \<open>The extractor: extractLinkedInProfileAdvanced\<close>

record experience_entry =
  title :: jsstring
  company :: jsstring
  order_index :: nat

record profile_data =
  name :: jsstring
  about :: jsstring
  bio :: jsstring
  location :: jsstring
  followerCount :: nat
  connectionCount :: nat
  bioLine :: jsstring
  headline :: jsstring
  industry :: jsstring
  profilePicture :: jsstring
  experience :: "experience_entry list"
  education :: "jsstring list"
  skills :: "jsstring list"
  extractionStatus :: jsstring
  extractedAt :: jsstring

text \<open>The object the catch block returns.\<close>

record failure_data =
  failureName :: jsstring
  failureBioLine :: jsstring
  failureStatus :: jsstring
  extractionError :: jsstring
  failureExtractedAt :: jsstring

datatype extraction_result = Extracted profile_data | ExtractionFailed failure_data

definition initialProfileData :: "jsstring \<Rightarrow> profile_data" where
  "initialProfileData now =
     \<lparr> name = [], about = [], bio = [], location = [], followerCount = 0,
       connectionCount = 0, bioLine = [], headline = [], industry = [],
       profilePicture = [], experience = [], education = [], skills = [],
       extractionStatus = str ''success'', extractedAt = now \<rparr>"

subsection \<open>Name, headline, location\<close>

definition nameSelectors :: "jsstring list" where
  "nameSelectors =
     [str ''h1.text-heading-xlarge.inline.t-24.v-align-middle.break-words'',
      str ''h1.text-heading-xlarge'',
      str ''.pv-text-details__left-panel h1'',
      str ''.ph5 h1'',
      str ''h1[aria-label]'']"

fun extractName :: "document \<Rightarrow> jsstring list \<Rightarrow> profile_data \<Rightarrow> jsstring + profile_data" where
  "extractName doc [] pd = Inr pd"
| "extractName doc (selector # rest) pd =
     (case querySelector doc selector of
        Inl e \<Rightarrow> Inl e
      | Inr None \<Rightarrow> extractName doc rest pd
      | Inr (Some el) \<Rightarrow>
          if trim (textContent el) \<noteq> [] then Inr (pd\<lparr>name := trim (textContent el)\<rparr>)
          else extractName doc rest pd)"

definition headlineSelectors :: "jsstring list" where
  "headlineSelectors =
     [str ''.text-body-medium.break-words'',
      str ''.pv-text-details__left-panel .text-body-medium'',
      str ''.ph5 .text-body-medium'']"

fun extractHeadline :: "document \<Rightarrow> jsstring list \<Rightarrow> profile_data \<Rightarrow> jsstring + profile_data" where
  "extractHeadline doc [] pd = Inr pd"
| "extractHeadline doc (selector # rest) pd =
     (case querySelector doc selector of
        Inl e \<Rightarrow> Inl e
      | Inr None \<Rightarrow> extractHeadline doc rest pd
      | Inr (Some el) \<Rightarrow>
          if trim (textContent el) \<noteq> [] \<and> \<not> jsIncludes (textContent el) bullet then
            Inr (pd\<lparr>bioLine := trim (textContent el), headline := trim (textContent el),
                    bio := trim (textContent el)\<rparr>)
          else extractHeadline doc rest pd)"

definition locationSelectors :: "jsstring list" where
  "locationSelectors =
     [str ''.text-body-small.inline.t-black--light.break-words'',
      str ''.pv-text-details__left-panel .text-body-small'']"

definition locationKeywords :: "jsstring list" where
  "locationKeywords =
     [str ''connection'', str ''follower'', str ''view'', str ''profile'', str ''contact'',
      str ''mutual'']"

definition isLocation :: "jsstring \<Rightarrow> bool" where
  "isLocation text =
     (text \<noteq> [] \<and> \<not> jsIncludes text bullet \<and> \<not> hasDigit text \<and> 2 < length text \<and>
      length text < 100 \<and>
      \<not> list_ex (\<lambda>keyword. jsIncludes (toLowerCase text) keyword) locationKeywords)"

text \<open>The inner loop over the elements of one selector: the first plausible text.\<close>

fun locationAmong :: "element list \<Rightarrow> jsstring option" where
  "locationAmong [] = None"
| "locationAmong (el # els) =
     (if isLocation (trim (textContent el)) then Some (trim (textContent el))
      else locationAmong els)"

fun extractLocation :: "document \<Rightarrow> jsstring list \<Rightarrow> profile_data \<Rightarrow> jsstring + profile_data" where
  "extractLocation doc [] pd = Inr pd"
| "extractLocation doc (selector # rest) pd =
     (case querySelectorAll doc selector of
        Inl e \<Rightarrow> Inl e
      | Inr els \<Rightarrow>
          (let pd' = (case locationAmong els of
                        None \<Rightarrow> pd
                      | Some text \<Rightarrow> pd\<lparr>location := text\<rparr>)
           in if location pd' \<noteq> [] then Inr pd' else extractLocation doc rest pd'))"

subsection \<open>Connection and follower counts\<close>

definition connectionSelectors :: "jsstring list" where
  "connectionSelectors =
     [str ''a[href*=\"/search/results/people/?network=%5B%22F%22%5D\"] .t-black--light .t-bold'',
      str ''a[href*=\"search/results/people\"] .t-black--light'',
      str ''.pv-top-card--list-bullet li:first-child .t-black--light'',
      str ''.pv-top-card__connections .t-black--light'',
      str ''.pv-top-card--list .pv-top-card--list-bullet li .t-black--light'']"

definition followerSelectors :: "jsstring list" where
  "followerSelectors =
     [str ''a[href*=\"/followers/\"] .t-black--light .t-bold'',
      str ''a[href*=\"followers\"] .t-black--light'',
      str ''.pv-top-card--list-bullet li:last-child .t-black--light'',
      str ''.pv-top-card__followers .t-black--light'']"

text \<open>
  Method 1. Each selector is tried inside its own try/catch: a query that throws is
  logged and the loop goes on to the next selector, so these two loops never fail.
\<close>

fun extractConnectionCount :: "document \<Rightarrow> jsstring list \<Rightarrow> profile_data \<Rightarrow> profile_data" where
  "extractConnectionCount doc [] pd = pd"
| "extractConnectionCount doc (selector # rest) pd =
     (case querySelector doc selector of
        Inl e \<Rightarrow> extractConnectionCount doc rest pd
      | Inr None \<Rightarrow> extractConnectionCount doc rest pd
      | Inr (Some el) \<Rightarrow>
          if jsIncludes (toLowerCase (trim (textContent el))) (str ''connection'') then
            (case matchNumber (trim (textContent el)) of
               None \<Rightarrow> extractConnectionCount doc rest pd
             | Some m \<Rightarrow> pd\<lparr>connectionCount := parseInt (removeCommas m)\<rparr>)
          else extractConnectionCount doc rest pd)"

fun extractFollowerCount :: "document \<Rightarrow> jsstring list \<Rightarrow> profile_data \<Rightarrow> profile_data" where
  "extractFollowerCount doc [] pd = pd"
| "extractFollowerCount doc (selector # rest) pd =
     (case querySelector doc selector of
        Inl e \<Rightarrow> extractFollowerCount doc rest pd
      | Inr None \<Rightarrow> extractFollowerCount doc rest pd
      | Inr (Some el) \<Rightarrow>
          if jsIncludes (toLowerCase (trim (textContent el))) (str ''follower'') then
            (case matchNumber (trim (textContent el)) of
               None \<Rightarrow> extractFollowerCount doc rest pd
             | Some m \<Rightarrow> pd\<lparr>followerCount := parseInt (removeCommas m)\<rparr>)
          else extractFollowerCount doc rest pd)"

text \<open>Method 2: when both counts are still 0, scan every candidate element; no break.\<close>

definition fallbackConnection :: "jsstring \<Rightarrow> profile_data \<Rightarrow> profile_data" where
  "fallbackConnection text pd =
     (if jsIncludes text (str ''connection'') \<and> \<not> jsIncludes text (str ''mutual'') \<and>
         \<not> jsIncludes text (str ''view'') then
        (case matchCount (str ''connection'') text of
           None \<Rightarrow> pd
         | Some m \<Rightarrow>
             if connectionCount pd = 0 then pd\<lparr>connectionCount := parseInt (removeCommas m)\<rparr>
             else pd)
      else pd)"

definition fallbackFollower :: "jsstring \<Rightarrow> profile_data \<Rightarrow> profile_data" where
  "fallbackFollower text pd =
     (if jsIncludes text (str ''follower'') \<and> \<not> jsIncludes text (str ''following'') then
        (case matchCount (str ''follower'') text of
           None \<Rightarrow> pd
         | Some m \<Rightarrow>
             if followerCount pd = 0 then pd\<lparr>followerCount := parseInt (removeCommas m)\<rparr>
             else pd)
      else pd)"

fun fallbackScan :: "element list \<Rightarrow> profile_data \<Rightarrow> profile_data" where
  "fallbackScan [] pd = pd"
| "fallbackScan (el # els) pd =
     fallbackScan els
       (fallbackFollower (toLowerCase (trim (textContent el)))
          (fallbackConnection (toLowerCase (trim (textContent el))) pd))"

definition fallbackCounts :: "document \<Rightarrow> profile_data \<Rightarrow> jsstring + profile_data" where
  "fallbackCounts doc pd =
     (if connectionCount pd = 0 \<and> followerCount pd = 0 then
        (case querySelectorAll doc (str ''.t-black--light, .t-normal, .pv-top-card--list-bullet li'') of
           Inl e \<Rightarrow> Inl e
         | Inr els \<Rightarrow> Inr (fallbackScan els pd))
      else Inr pd)"

text \<open>
  Method 3: the links. A link whose number is not below the limit is passed over and the
  loop goes on; the first one below the limit is taken.
\<close>

fun connectionFromLinks :: "element list \<Rightarrow> profile_data \<Rightarrow> profile_data" where
  "connectionFromLinks [] pd = pd"
| "connectionFromLinks (link # links) pd =
     (if jsIncludes (toLowerCase (trim (textContent link))) (str ''connection'') then
        (case matchNumber (toLowerCase (trim (textContent link))) of
           None \<Rightarrow> connectionFromLinks links pd
         | Some m \<Rightarrow>
             if parseInt (removeCommas m) < 100000 then
               pd\<lparr>connectionCount := parseInt (removeCommas m)\<rparr>
             else connectionFromLinks links pd)
      else connectionFromLinks links pd)"

definition connectionLinks :: "document \<Rightarrow> profile_data \<Rightarrow> jsstring + profile_data" where
  "connectionLinks doc pd =
     (if connectionCount pd = 0 then
        (case querySelectorAll doc (str ''a[href*=\"search/results/people\"], a[href*=\"network\"]'') of
           Inl e \<Rightarrow> Inl e
         | Inr links \<Rightarrow> Inr (connectionFromLinks links pd))
      else Inr pd)"

fun followerFromLinks :: "element list \<Rightarrow> profile_data \<Rightarrow> profile_data" where
  "followerFromLinks [] pd = pd"
| "followerFromLinks (link # links) pd =
     (if jsIncludes (toLowerCase (trim (textContent link))) (str ''follower'') then
        (case matchNumber (toLowerCase (trim (textContent link))) of
           None \<Rightarrow> followerFromLinks links pd
         | Some m \<Rightarrow>
             if parseInt (removeCommas m) < 10000000 then
               pd\<lparr>followerCount := parseInt (removeCommas m)\<rparr>
             else followerFromLinks links pd)
      else followerFromLinks links pd)"

definition followerLinks :: "document \<Rightarrow> profile_data \<Rightarrow> jsstring + profile_data" where
  "followerLinks doc pd =
     (if followerCount pd = 0 then
        (case querySelectorAll doc (str ''a[href*=\"followers\"]'') of
           Inl e \<Rightarrow> Inl e
         | Inr links \<Rightarrow> Inr (followerFromLinks links pd))
      else Inr pd)"

text \<open>The sanity check and validation that closes the count extraction.\<close>

definition sanityCheck :: "profile_data \<Rightarrow> profile_data" where
  "sanityCheck pd =
     (let pd1 = (if 100000 < connectionCount pd then pd\<lparr>connectionCount := 0\<rparr> else pd)
      in if 50000000 < followerCount pd1 then pd1\<lparr>followerCount := 0\<rparr> else pd1)"

subsection \<open>Picture, about, experience, skills\<close>

definition profileImgSelectors :: "jsstring list" where
  "profileImgSelectors =
     [str ''.pv-top-card__photo img'',
      str ''.profile-photo-edit__preview img'',
      str ''.pv-top-card-profile-picture img'']"

fun extractProfilePicture :: "document \<Rightarrow> jsstring list \<Rightarrow> profile_data \<Rightarrow> jsstring + profile_data" where
  "extractProfilePicture doc [] pd = Inr pd"
| "extractProfilePicture doc (selector # rest) pd =
     (case querySelector doc selector of
        Inl e \<Rightarrow> Inl e
      | Inr None \<Rightarrow> extractProfilePicture doc rest pd
      | Inr (Some img) \<Rightarrow>
          if src img \<noteq> [] \<and> \<not> jsIncludes (src img) (str ''data:'') \<and>
             jsIncludes (src img) (str ''http'') then
            Inr (pd\<lparr>profilePicture := src img\<rparr>)
          else extractProfilePicture doc rest pd)"

definition aboutSelectors :: "jsstring list" where
  "aboutSelectors =
     [str ''#about ~ * .inline-show-more-text'',
      str ''.pv-about-section .pv-shared-text-with-see-more'',
      str ''.pv-about__summary-text .inline-show-more-text'']"

fun extractAbout :: "document \<Rightarrow> jsstring list \<Rightarrow> profile_data \<Rightarrow> jsstring + profile_data" where
  "extractAbout doc [] pd = Inr pd"
| "extractAbout doc (selector # rest) pd =
     (case querySelector doc selector of
        Inl e \<Rightarrow> Inl e
      | Inr None \<Rightarrow> extractAbout doc rest pd
      | Inr (Some el) \<Rightarrow>
          if length (bioLine pd) < length (trim (textContent el)) then
            Inr (pd\<lparr>about := trim (textContent el)\<rparr>)
          else extractAbout doc rest pd)"

definition titleSelectors :: "jsstring list" where
  "titleSelectors = [str ''.t-bold'', str ''.mr1.t-bold'', str ''.pvs-entity__caption-wrapper .t-bold'']"

definition companySelectors :: "jsstring list" where
  "companySelectors = [str ''.t-14.t-normal'', str ''.pvs-entity__caption-wrapper .t-14'']"

text \<open>The title is the text of the first element found, empty or not.\<close>

fun findTitle :: "document \<Rightarrow> jsstring list \<Rightarrow> jsstring + jsstring" where
  "findTitle elem [] = Inr []"
| "findTitle elem (selector # rest) =
     (case querySelector elem selector of
        Inl e \<Rightarrow> Inl e
      | Inr None \<Rightarrow> findTitle elem rest
      | Inr (Some titleElem) \<Rightarrow> Inr (trim (textContent titleElem)))"

fun findCompany :: "document \<Rightarrow> jsstring \<Rightarrow> jsstring list \<Rightarrow> jsstring + jsstring" where
  "findCompany elem ttl [] = Inr []"
| "findCompany elem ttl (selector # rest) =
     (case querySelector elem selector of
        Inl e \<Rightarrow> Inl e
      | Inr None \<Rightarrow> findCompany elem ttl rest
      | Inr (Some companyElem) \<Rightarrow>
          if \<not> jsIncludes (textContent companyElem) ttl then Inr (trim (textContent companyElem))
          else findCompany elem ttl rest)"

text \<open>The forEach over the experience items; only the first five are looked at.\<close>

fun experienceEntries :: "element list \<Rightarrow> nat \<Rightarrow> jsstring + experience_entry list" where
  "experienceEntries [] index = Inr []"
| "experienceEntries (elem # elems) index =
     (if index < 5 then
        (case findTitle (within elem) titleSelectors of
           Inl e \<Rightarrow> Inl e
         | Inr ttl \<Rightarrow>
             (case findCompany (within elem) ttl companySelectors of
                Inl e \<Rightarrow> Inl e
              | Inr firm \<Rightarrow>
                  (case experienceEntries elems (Suc index) of
                     Inl e \<Rightarrow> Inl e
                   | Inr entries \<Rightarrow>
                       Inr (if ttl \<noteq> [] \<or> firm \<noteq> [] then
                              \<lparr> title = ttl, company = firm, order_index = index \<rparr> # entries
                            else entries))))
      else experienceEntries elems (Suc index))"

definition extractExperience :: "document \<Rightarrow> profile_data \<Rightarrow> jsstring + profile_data" where
  "extractExperience doc pd =
     (case querySelectorAll doc
             (str ''#experience ~ * .pvs-list__item, [data-section=\"experience\"] .pvs-list__item'') of
        Inl e \<Rightarrow> Inl e
      | Inr elems \<Rightarrow>
          if 0 < length elems then
            (case experienceEntries elems 0 of
               Inl e \<Rightarrow> Inl e
             | Inr entries \<Rightarrow> Inr (pd\<lparr>experience := entries\<rparr>))
          else Inr pd)"

fun skillTexts :: "element list \<Rightarrow> nat \<Rightarrow> jsstring list" where
  "skillTexts [] index = []"
| "skillTexts (elem # elems) index =
     (if index < 15 \<and> trim (textContent elem) \<noteq> [] \<and> length (trim (textContent elem)) < 50 \<and>
         1 < length (trim (textContent elem)) then
        trim (textContent elem) # skillTexts elems (Suc index)
      else skillTexts elems (Suc index))"

text \<open>\<open>[...new Set(skills)]\<close>: the first occurrence of each skill, in order.\<close>

definition uniqueInOrder :: "jsstring list \<Rightarrow> jsstring list" where
  "uniqueInOrder xs = foldl (\<lambda>seen x. if x \<in> set seen then seen else seen @ [x]) [] xs"

definition extractSkills :: "document \<Rightarrow> profile_data \<Rightarrow> jsstring + profile_data" where
  "extractSkills doc pd =
     (case querySelectorAll doc
             (str ''#skills ~ * .pvs-list__item .t-bold, [data-section=\"skills\"] .t-bold'') of
        Inl e \<Rightarrow> Inl e
      | Inr elems \<Rightarrow>
          if 0 < length elems then Inr (pd\<lparr>skills := uniqueInOrder (skillTexts elems 0)\<rparr>)
          else Inr pd)"

subsection \<open>Status and the whole function\<close>

definition determineStatus :: "profile_data \<Rightarrow> profile_data" where
  "determineStatus pd =
     (if name pd = [] then pd\<lparr>extractionStatus := str ''failed''\<rparr>
      else if bioLine pd = [] \<and> location pd = [] then pd\<lparr>extractionStatus := str ''partial''\<rparr>
      else pd)"

definition andThen :: "'e + 'a \<Rightarrow> ('a \<Rightarrow> 'e + 'b) \<Rightarrow> 'e + 'b" where
  "andThen r f = (case r of Inl e \<Rightarrow> Inl e | Inr x \<Rightarrow> f x)"

text \<open>The try block up to the sanity check: the record with the counts as parsed.\<close>

definition extractCounts :: "document \<Rightarrow> jsstring \<Rightarrow> jsstring + profile_data" where
  "extractCounts doc now =
     andThen (extractName doc nameSelectors (initialProfileData now)) (\<lambda>pd1.
     andThen (extractHeadline doc headlineSelectors pd1) (\<lambda>pd2.
     andThen (extractLocation doc locationSelectors pd2) (\<lambda>pd3.
     andThen (fallbackCounts doc
                (extractFollowerCount doc followerSelectors
                   (extractConnectionCount doc connectionSelectors pd3))) (\<lambda>pd4.
     andThen (connectionLinks doc pd4) (\<lambda>pd5.
     followerLinks doc pd5)))))"

text \<open>The try block after the sanity check.\<close>

definition extractDetails :: "document \<Rightarrow> profile_data \<Rightarrow> jsstring + profile_data" where
  "extractDetails doc pd =
     andThen (extractProfilePicture doc profileImgSelectors pd) (\<lambda>pd1.
     andThen (extractAbout doc aboutSelectors pd1) (\<lambda>pd2.
     andThen (extractExperience doc pd2) (\<lambda>pd3.
     andThen (extractSkills doc pd3) (\<lambda>pd4.
     Inr (determineStatus pd4)))))"

definition extractBody :: "document \<Rightarrow> jsstring \<Rightarrow> jsstring + profile_data" where
  "extractBody doc now =
     andThen (extractCounts doc now) (\<lambda>pd. extractDetails doc (sanityCheck pd))"

text \<open>
  The function: the try block, and the catch block that turns any exception into a
  record. \<open>now\<close> and \<open>nowCatch\<close> are the two readings of the clock.
\<close>

definition extractLinkedInProfileAdvanced :: "document \<Rightarrow> jsstring \<Rightarrow> jsstring \<Rightarrow> extraction_result" where
  "extractLinkedInProfileAdvanced doc now nowCatch =
     (case extractBody doc now of
        Inr pd \<Rightarrow> Extracted pd
      | Inl msg \<Rightarrow>
          ExtractionFailed
            \<lparr> failureName = str ''Extraction Failed'',
              failureBioLine = str ''Could not extract profile data'',
              failureStatus = str ''failed'',
              extractionError = msg,
              failureExtractedAt = nowCatch \<rparr>)"

text \<open>
  The fields of the returned object that the status rule speaks of. The catch block's
  object has no \<open>location\<close>.
\<close>

fun resultName :: "extraction_result \<Rightarrow> jsstring" where
  "resultName (Extracted pd) = name pd"
| "resultName (ExtractionFailed f) = failureName f"

fun resultBioLine :: "extraction_result \<Rightarrow> jsstring" where
  "resultBioLine (Extracted pd) = bioLine pd"
| "resultBioLine (ExtractionFailed f) = failureBioLine f"

fun resultLocation :: "extraction_result \<Rightarrow> jsstring option" where
  "resultLocation (Extracted pd) = Some (location pd)"
| "resultLocation (ExtractionFailed f) = None"

fun resultStatus :: "extraction_result \<Rightarrow> jsstring" where
  "resultStatus (Extracted pd) = extractionStatus pd"
| "resultStatus (ExtractionFailed f) = failureStatus f"

subsection \<open>Example pages\<close>

text \<open>
  Two pages used to run the extractor: one with a name, a headline and the counts
  250,000 and 500,000; one on which every query throws.
\<close>

definition leaf :: "jsstring \<Rightarrow> element" where
  "leaf t = Element t [] (\<lambda>selector. Inr [])"

definition examplePage :: document where
  "examplePage selector =
     (if selector = str ''h1.text-heading-xlarge'' then Inr [leaf (str ''  Ada Lovelace '')]
      else if selector = str ''.text-body-medium.break-words'' then Inr [leaf (str ''Analyst'')]
      else if selector = str ''.pv-top-card__connections .t-black--light'' then
        Inr [leaf (str ''250,000 connections'')]
      else if selector = str ''.pv-top-card__followers .t-black--light'' then
        Inr [leaf (str ''500,000 followers'')]
      else Inr [])"

definition throwingPage :: document where
  "throwingPage selector = Inl (str ''querySelector failed'')"

text \<open>
  The status rule in the specification's words, read off a returned object: failed when
  the name is empty, partial when the name was read but neither bioLine nor location
  was, success otherwise.
\<close>

definition statusRule :: "extraction_result \<Rightarrow> jsstring" where
  "statusRule r =
     (if resultName r = [] then str ''failed''
      else if resultBioLine r = [] \<and> (resultLocation r = None \<or> resultLocation r = Some [])
        then str ''partial''
      else str ''success'')"

section \<open>The background service worker\<close>

text \<open>
  The orchestrator of \<open>background.js\<close>. The browser and the network are the
  environment: every call that leaves the worker (\<open>chrome.tabs.create\<close>,
  \<open>chrome.tabs.get\<close>, \<open>chrome.scripting.executeScript\<close>, \<open>fetch\<close>,
  \<open>chrome.tabs.remove\<close>) has its outcome given from outside, an exception being the
  message it carries. Each function returns the new \<open>extensionState\<close> and the list of
  what it did, in order: the calls it made and, after every write to the state, the
  state as it then stands. The functions of a batch run follow one run from start to end;
  a run that other message handlers interrupt at an \<open>await\<close> is followed in the last
  subsection. Console output other than the retry loop's error report, notifications and
  the stored statistics are left out.
\<close>

definition TAB_TIMEOUT :: nat where
  "TAB_TIMEOUT = 45000"

definition PROCESSING_DELAY :: nat where
  "PROCESSING_DELAY = 3000"

definition MAX_RETRIES :: nat where
  "MAX_RETRIES = 2"

record extension_state =
  isProcessing :: bool
  currentBatch :: "jsstring list"
  processedCount :: nat
  successCount :: nat
  errorCount :: nat
  activeTabs :: "nat list"
  processingStartTime :: "nat option"

text \<open>\<open>activeTabs\<close> is a \<open>Set\<close>: the tab ids in insertion order, each once.\<close>

definition setHas :: "nat \<Rightarrow> nat list \<Rightarrow> bool" where
  "setHas x xs = (x \<in> set xs)"

definition setAdd :: "nat \<Rightarrow> nat list \<Rightarrow> nat list" where
  "setAdd x xs = (if x \<in> set xs then xs else xs @ [x])"

definition setDelete :: "nat \<Rightarrow> nat list \<Rightarrow> nat list" where
  "setDelete x xs = removeAll x xs"

definition setSize :: "nat list \<Rightarrow> nat" where
  "setSize xs = length xs"

datatype event =
    TabsCreate jsstring
  | TabsRemove nat
  | Wait nat
  | ExecuteScript nat
  | Post jsstring extraction_result
  | ConsoleError nat jsstring
  | ProgressUpdate nat nat jsstring
  | StateNow extension_state

fun snapshots :: "event list \<Rightarrow> extension_state list" where
  "snapshots [] = []"
| "snapshots (StateNow s # evs) = s # snapshots evs"
| "snapshots (_ # evs) = snapshots evs"

fun tabsOpened :: "event list \<Rightarrow> jsstring list" where
  "tabsOpened [] = []"
| "tabsOpened (TabsCreate url # evs) = url # tabsOpened evs"
| "tabsOpened (_ # evs) = tabsOpened evs"

definition resetState :: "extension_state \<Rightarrow> extension_state" where
  "resetState s =
     s\<lparr> isProcessing := False, currentBatch := [], processedCount := 0, successCount := 0,
        errorCount := 0, activeTabs := [], processingStartTime := None \<rparr>"

subsection \<open>The environment of one attempt\<close>

text \<open>
  The answer to one \<open>chrome.tabs.get\<close> of \<open>waitForTabComplete\<close>: the tab's status,
  \<open>chrome.runtime.lastError\<close>, or the 45-second timer having rejected the promise
  before this answer came.
\<close>

datatype poll = TimerFired | LastError jsstring | TabStatus jsstring

record response_body =
  successFlag :: bool
  message :: "jsstring option"
  profileIdRead :: "jsstring + nat option"

record http_response =
  ok :: bool
  status :: nat
  json :: "jsstring + response_body"

record attempt_env =
  tabsCreate :: "jsstring + nat"
  tabStatus :: "nat \<Rightarrow> poll"
  scriptResult :: "jsstring + document option"
  clock :: jsstring
  clockCatch :: jsstring
  fetchResult :: "jsstring + http_response"
  tabsRemove :: "jsstring option"

subsection \<open>waitForTabComplete\<close>

text \<open>
  \<open>checkCount >= maxChecks\<close> with \<open>maxChecks = timeout / 500\<close>, a division of
  doubles, is \<open>timeout \<le> 500 * checkCount\<close>.
\<close>

function checkTabStatus :: "(nat \<Rightarrow> poll) \<Rightarrow> nat \<Rightarrow> nat \<Rightarrow> jsstring + unit" where
  "checkTabStatus polls timeout checkCount =
     (case polls (Suc checkCount) of
        TimerFired \<Rightarrow> Inl (str ''Tab loading timeout'')
      | LastError msg \<Rightarrow> Inl (str ''Tab not found: '' @ msg)
      | TabStatus st \<Rightarrow>
          if st = str ''complete'' then Inr ()
          else if timeout \<le> 500 * Suc checkCount then
            Inl (str ''Tab loading timeout - max checks reached'')
          else checkTabStatus polls timeout (Suc checkCount))"
  by pat_completeness auto
termination
  by (relation "measure (\<lambda>(polls, timeout, checkCount). timeout - 500 * checkCount)") auto

definition waitForTabComplete :: "(nat \<Rightarrow> poll) \<Rightarrow> nat \<Rightarrow> jsstring + unit" where
  "waitForTabComplete polls timeout = checkTabStatus polls timeout 0"

subsection \<open>extractProfileFromTab, saveProfileToBackend, closeTab\<close>

text \<open>
  The injection of \<open>content.js\<close> is inside its own try/catch and changes nothing. The
  extraction script either throws, returns nothing usable, or runs the extractor on the
  page of the tab.
\<close>

definition extractProfileFromTab :: "attempt_env \<Rightarrow> nat \<Rightarrow> jsstring + extraction_result" where
  "extractProfileFromTab env tabId =
     (case scriptResult env of
        Inl msg \<Rightarrow> Inl msg
      | Inr None \<Rightarrow> Inl (str ''No data returned from extraction script'')
      | Inr (Some doc) \<Rightarrow> Inr (extractLinkedInProfileAdvanced doc (clock env) (clockCatch env)))"

datatype save_result = SaveOk "nat option" | SaveFailed jsstring

definition saveProfileToBackend :: "jsstring + http_response \<Rightarrow> save_result" where
  "saveProfileToBackend fetched =
     (case fetched of
        Inl msg \<Rightarrow> SaveFailed msg
      | Inr response \<Rightarrow>
          (case json response of
             Inl msg \<Rightarrow> SaveFailed msg
           | Inr result \<Rightarrow>
               if ok response \<and> successFlag result then
                 (case profileIdRead result of
                    Inl msg \<Rightarrow> SaveFailed msg
                  | Inr profileId \<Rightarrow> SaveOk profileId)
               else
                 SaveFailed
                   (case message result of
                      None \<Rightarrow> str ''HTTP '' @ natToString (status response)
                    | Some m \<Rightarrow> if m \<noteq> [] then m else str ''HTTP '' @ natToString (status response))))"

text \<open>Both branches of closeTab's try/catch delete the id from the set.\<close>

definition closeTab :: "jsstring option \<Rightarrow> nat \<Rightarrow> extension_state \<Rightarrow> extension_state \<times> event list" where
  "closeTab removal tabId s =
     (case removal of
        None \<Rightarrow>
          (s\<lparr>activeTabs := setDelete tabId (activeTabs s)\<rparr>,
           [TabsRemove tabId, StateNow (s\<lparr>activeTabs := setDelete tabId (activeTabs s)\<rparr>)])
      | Some msg \<Rightarrow>
          (s\<lparr>activeTabs := setDelete tabId (activeTabs s)\<rparr>,
           [TabsRemove tabId, StateNow (s\<lparr>activeTabs := setDelete tabId (activeTabs s)\<rparr>)]))"

subsection \<open>processSingleUrl\<close>

text \<open>
  What processSingleUrl returns: \<open>{success: true, profile, profileId}\<close>, or
  \<open>{success: false, isDuplicate, error}\<close>; the object returned after the last retry has
  no \<open>isDuplicate\<close>, which reads as false.
\<close>

datatype single_result =
    Saved jsstring extraction_result "nat option"
  | NotSaved bool jsstring

datatype attempt_outcome = Threw jsstring | Returned single_result

text \<open>
  The try block of one attempt. The variable \<open>tab\<close> lives outside the loop: when
  \<open>chrome.tabs.create\<close> throws it still holds the tab of the attempt before.
\<close>

definition tryAttempt ::
  "jsstring \<Rightarrow> attempt_env \<Rightarrow> nat option \<Rightarrow> extension_state \<Rightarrow>
     attempt_outcome \<times> nat option \<times> extension_state \<times> event list" where
  "tryAttempt url env tab s =
     (case tabsCreate env of
        Inl msg \<Rightarrow> (Threw msg, tab, s, [TabsCreate url])
      | Inr tabId \<Rightarrow>
          (let s1 = s\<lparr>activeTabs := setAdd tabId (activeTabs s)\<rparr>;
               ev1 = [TabsCreate url, StateNow s1]
           in case waitForTabComplete (tabStatus env) TAB_TIMEOUT of
                Inl msg \<Rightarrow> (Threw msg, Some tabId, s1, ev1)
              | Inr _ \<Rightarrow>
                  (let ev2 = ev1 @ [Wait 5000, Wait 2000, ExecuteScript tabId]
                   in case extractProfileFromTab env tabId of
                        Inl msg \<Rightarrow> (Threw msg, Some tabId, s1, ev2)
                      | Inr profileData \<Rightarrow>
                          if resultName profileData = [] then
                            (Threw (str ''Failed to extract profile data - no name found''),
                             Some tabId, s1, ev2)
                          else
                            (case saveProfileToBackend (fetchResult env) of
                               SaveFailed err \<Rightarrow>
                                 (case closeTab (tabsRemove env) tabId s1 of
                                    (s2, evc) \<Rightarrow>
                                      (Returned
                                         (NotSaved (err \<noteq> [] \<and> jsIncludes err (str ''already exists''))
                                            err),
                                       Some tabId, s2, ev2 @ [Post url profileData] @ evc))
                             | SaveOk profileId \<Rightarrow>
                                 (case closeTab (tabsRemove env) tabId s1 of
                                    (s2, evc) \<Rightarrow>
                                      (Returned (Saved url profileData profileId),
                                       Some tabId, s2, ev2 @ [Post url profileData] @ evc))))))"

text \<open>The catch block of one attempt: report, clean up the tab, count, wait before a retry.\<close>

definition catchBlock ::
  "attempt_env \<Rightarrow> nat \<Rightarrow> jsstring \<Rightarrow> nat option \<Rightarrow> extension_state \<Rightarrow>
     extension_state \<times> event list" where
  "catchBlock env retryCount msg tab s =
     (case (case tab of
              None \<Rightarrow> (s, [])
            | Some tabId \<Rightarrow>
                if setHas tabId (activeTabs s) then closeTab (tabsRemove env) tabId s else (s, [])) of
        (s', evc) \<Rightarrow>
          (s', [ConsoleError (retryCount + 1) msg] @ evc @
               (if retryCount + 1 < MAX_RETRIES then [Wait 2000] else [])))"

function processAttempts ::
  "jsstring \<Rightarrow> (nat \<Rightarrow> attempt_env) \<Rightarrow> nat \<Rightarrow> nat option \<Rightarrow> extension_state \<Rightarrow>
     single_result \<times> extension_state \<times> event list" where
  "processAttempts url envs retryCount tab s =
     (if retryCount < MAX_RETRIES then
        (case tryAttempt url (envs retryCount) tab s of
           (Returned r, tab', s', ev) \<Rightarrow> (r, s', ev)
         | (Threw msg, tab', s', ev) \<Rightarrow>
             (case catchBlock (envs retryCount) retryCount msg tab' s' of
                (s'', evc) \<Rightarrow>
                  (case processAttempts url envs (Suc retryCount) tab' s'' of
                     (r, sf, evr) \<Rightarrow> (r, sf, ev @ evc @ evr))))
      else
        (NotSaved False (str ''Failed after '' @ natToString MAX_RETRIES @ str '' attempts''), s, []))"
  by pat_completeness auto
termination
  by (relation "measure (\<lambda>(url, envs, retryCount, tab, s). MAX_RETRIES - retryCount)") auto

definition processSingleUrl ::
  "jsstring \<Rightarrow> (nat \<Rightarrow> attempt_env) \<Rightarrow> extension_state \<Rightarrow>
     single_result \<times> extension_state \<times> event list" where
  "processSingleUrl url envs s = processAttempts url envs 0 None s"

subsection \<open>processBatchUrls\<close>

record batch_results =
  successful :: "(jsstring \<times> extraction_result \<times> nat option) list"
  failed :: "(jsstring \<times> jsstring) list"
  skipped :: "(jsstring \<times> jsstring \<times> jsstring) list"
  summaryTotal :: nat
  summarySuccess :: nat
  summaryErrors :: nat
  summaryDuplicates :: nat

definition emptyResults :: "nat \<Rightarrow> batch_results" where
  "emptyResults n =
     \<lparr> successful = [], failed = [], skipped = [], summaryTotal = n, summarySuccess = 0,
       summaryErrors = 0, summaryDuplicates = 0 \<rparr>"

text \<open>
  The try block of one loop iteration, \<open>i\<close> counting from 0. processSingleUrl and
  notifyPopupProgress catch what they throw, so the loop's own catch block is never
  entered.
\<close>

definition batchIteration ::
  "(nat \<Rightarrow> attempt_env) \<Rightarrow> nat \<Rightarrow> nat \<Rightarrow> jsstring \<Rightarrow> extension_state \<Rightarrow> batch_results \<Rightarrow>
     batch_results \<times> extension_state \<times> event list" where
  "batchIteration envs totalUrls i url s results =
     (let s1 = s\<lparr>processedCount := i + 1\<rparr>;
          ev1 = [StateNow s1, ProgressUpdate (i + 1) totalUrls url]
      in case processSingleUrl url envs s1 of
           (Saved u profile profileId, s2, ev) \<Rightarrow>
             (results\<lparr>successful := successful results @ [(url, profile, profileId)],
                      summarySuccess := summarySuccess results + 1\<rparr>,
              s2\<lparr>successCount := successCount s2 + 1\<rparr>,
              ev1 @ ev @ [StateNow (s2\<lparr>successCount := successCount s2 + 1\<rparr>)])
         | (NotSaved isDuplicate err, s2, ev) \<Rightarrow>
             if isDuplicate then
               (results\<lparr>skipped := skipped results @ [(url, str ''duplicate'', err)],
                        summaryDuplicates := summaryDuplicates results + 1\<rparr>,
                s2, ev1 @ ev)
             else
               (results\<lparr>failed := failed results @ [(url, err)],
                        summaryErrors := summaryErrors results + 1\<rparr>,
                s2\<lparr>errorCount := errorCount s2 + 1\<rparr>,
                ev1 @ ev @ [StateNow (s2\<lparr>errorCount := errorCount s2 + 1\<rparr>)]))"

text \<open>
  The for loop over the URLs still to do; \<open>envs i\<close> is the environment of the
  attempts on the URL at index \<open>i\<close>.
\<close>

fun batchLoop ::
  "(nat \<Rightarrow> nat \<Rightarrow> attempt_env) \<Rightarrow> nat \<Rightarrow> nat \<Rightarrow> jsstring list \<Rightarrow> extension_state \<Rightarrow>
     batch_results \<Rightarrow> batch_results \<times> extension_state \<times> event list" where
  "batchLoop envs totalUrls i [] s results = (results, s, [])"
| "batchLoop envs totalUrls i (url # rest) s results =
     (case batchIteration (envs i) totalUrls i url s results of
        (results', s', ev) \<Rightarrow>
          if \<not> isProcessing s' then
            (results', s', ev @ (if i + 1 < totalUrls then [Wait PROCESSING_DELAY] else []))
          else
            (case batchLoop envs totalUrls (Suc i) rest s' results' of
               (resultsF, sF, evF) \<Rightarrow>
                 (resultsF, sF,
                  ev @ (if i + 1 < totalUrls then [Wait PROCESSING_DELAY] else []) @ evF)))"

definition processBatchUrls ::
  "(nat \<Rightarrow> nat \<Rightarrow> attempt_env) \<Rightarrow> jsstring list \<Rightarrow> extension_state \<Rightarrow>
     batch_results \<times> extension_state \<times> event list" where
  "processBatchUrls envs urls s = batchLoop envs (length urls) 0 urls s (emptyResults (length urls))"

subsection \<open>The message handlers and the error listeners\<close>

text \<open>
  \<open>message.data\<close>: absent, or an object whose \<open>urls\<close> is an array or anything else
  (\<open>None\<close>).
\<close>

datatype message_data = NoData | Data "jsstring list option"

text \<open>
  What \<open>sendResponse\<close> is given. With no \<open>data\<close> the destructuring throws a TypeError
  whose message is the engine's.
\<close>

datatype response =
    Failure jsstring
  | FailureTypeError
  | Completed batch_results
  | Stopped

definition handleStartBatchProcessing ::
  "(nat \<Rightarrow> nat \<Rightarrow> attempt_env) \<Rightarrow> nat \<Rightarrow> message_data \<Rightarrow> extension_state \<Rightarrow>
     response \<times> extension_state \<times> event list" where
  "handleStartBatchProcessing envs startTime data s =
     (if isProcessing s then (Failure (str ''Batch processing already in progress''), s, [])
      else
        (case data of
           NoData \<Rightarrow> (FailureTypeError, resetState s, [StateNow (resetState s)])
         | Data None \<Rightarrow> (Failure (str ''No URLs provided for processing''), s, [])
         | Data (Some []) \<Rightarrow> (Failure (str ''No URLs provided for processing''), s, [])
         | Data (Some (u # us)) \<Rightarrow>
             (let s1 = s\<lparr> isProcessing := True, currentBatch := u # us, processedCount := 0,
                          successCount := 0, errorCount := 0,
                          processingStartTime := Some startTime \<rparr>
              in case processBatchUrls envs (u # us) s1 of
                   (results, s2, ev) \<Rightarrow>
                     (Completed results, resetState s2,
                      [StateNow s1] @ ev @ [StateNow (resetState s2)]))))"

text \<open>
  handleStopBatchProcessing calls \<open>chrome.tabs.remove\<close> for every tracked tab and
  resets the state before any of those calls has answered.
\<close>

definition handleStopBatchProcessing ::
  "extension_state \<Rightarrow> response \<times> extension_state \<times> event list" where
  "handleStopBatchProcessing s =
     (Stopped, resetState (s\<lparr>isProcessing := False\<rparr>),
      [StateNow (s\<lparr>isProcessing := False\<rparr>)] @ map TabsRemove (activeTabs s) @
      [StateNow (resetState (s\<lparr>isProcessing := False\<rparr>))])"

text \<open>
  The listeners for \<open>error\<close> and \<open>unhandledrejection\<close> write the event to the console
  and do nothing else.
\<close>

definition errorListener :: "extension_state \<Rightarrow> extension_state \<times> event list" where
  "errorListener s = (s, [])"

definition unhandledRejectionListener :: "extension_state \<Rightarrow> extension_state \<times> event list" where
  "unhandledRejectionListener s = (s, [])"

text \<open>\<open>chrome.runtime.onStartup\<close>: the listener calls resetState and nothing else.\<close>

definition onStartupListener :: "extension_state \<Rightarrow> extension_state \<times> event list" where
  "onStartupListener s = (resetState s, [StateNow (resetState s)])"

subsection \<open>A run cut at an await\<close>

text \<open>
  Every \<open>await\<close> hands control to the event loop, which may run another message
  handler on the same \<open>extensionState\<close> before the awaited call answers. To follow such
  a schedule, the start handler is cut at one await: where the first attempt on the
  first URL waits for its tab to load (\<open>await waitForTabComplete\<close>). The part before
  the await runs on the state the handler was called in; the part after it runs on the
  state as the handlers in between have left it, with the local variables (\<open>tab\<close>,
  \<open>retryCount\<close>, \<open>i\<close>, \<open>results\<close>) as the first part left them. Every other await of
  the run (of \<open>chrome.tabs.create\<close> before it, of the waits and calls after it) is passed
  with no other handler in between, as in the functions above. Each function below is
  the rest of one source function from the point where a call inside it has answered.
\<close>

text \<open>
  The try block up to \<open>await waitForTabComplete\<close>: the id of the tab that was opened and
  added to the set, or the exception of \<open>chrome.tabs.create\<close>.
\<close>

definition attemptUntilLoad ::
  "jsstring \<Rightarrow> attempt_env \<Rightarrow> extension_state \<Rightarrow> (jsstring + nat) \<times> extension_state \<times> event list" where
  "attemptUntilLoad url env s =
     (case tabsCreate env of
        Inl msg \<Rightarrow> (Inl msg, s, [TabsCreate url])
      | Inr tabId \<Rightarrow>
          (Inr tabId, s\<lparr>activeTabs := setAdd tabId (activeTabs s)\<rparr>,
           [TabsCreate url, StateNow (s\<lparr>activeTabs := setAdd tabId (activeTabs s)\<rparr>)]))"

text \<open>The try block from the answer of waitForTabComplete on.\<close>

definition attemptFromLoad ::
  "jsstring \<Rightarrow> attempt_env \<Rightarrow> nat \<Rightarrow> extension_state \<Rightarrow>
     attempt_outcome \<times> nat option \<times> extension_state \<times> event list" where
  "attemptFromLoad url env tabId s1 =
     (case waitForTabComplete (tabStatus env) TAB_TIMEOUT of
        Inl msg \<Rightarrow> (Threw msg, Some tabId, s1, [])
      | Inr _ \<Rightarrow>
          (let ev2 = [Wait 5000, Wait 2000, ExecuteScript tabId]
           in case extractProfileFromTab env tabId of
                Inl msg \<Rightarrow> (Threw msg, Some tabId, s1, ev2)
              | Inr profileData \<Rightarrow>
                  if resultName profileData = [] then
                    (Threw (str ''Failed to extract profile data - no name found''),
                     Some tabId, s1, ev2)
                  else
                    (case saveProfileToBackend (fetchResult env) of
                       SaveFailed err \<Rightarrow>
                         (case closeTab (tabsRemove env) tabId s1 of
                            (s2, evc) \<Rightarrow>
                              (Returned
                                 (NotSaved (err \<noteq> [] \<and> jsIncludes err (str ''already exists''))
                                    err),
                               Some tabId, s2, ev2 @ [Post url profileData] @ evc))
                     | SaveOk profileId \<Rightarrow>
                         (case closeTab (tabsRemove env) tabId s1 of
                            (s2, evc) \<Rightarrow>
                              (Returned (Saved url profileData profileId),
                               Some tabId, s2, ev2 @ [Post url profileData] @ evc)))))"

text \<open>The rest of one pass of the retry loop, from the end of its try block.\<close>

definition afterAttempt ::
  "jsstring \<Rightarrow> (nat \<Rightarrow> attempt_env) \<Rightarrow> nat \<Rightarrow>
     attempt_outcome \<times> nat option \<times> extension_state \<times> event list \<Rightarrow>
     single_result \<times> extension_state \<times> event list" where
  "afterAttempt url envs retryCount attempt =
     (case attempt of
        (Returned r, tab', s', ev) \<Rightarrow> (r, s', ev)
      | (Threw msg, tab', s', ev) \<Rightarrow>
          (case catchBlock (envs retryCount) retryCount msg tab' s' of
             (s'', evc) \<Rightarrow>
               (case processAttempts url envs (Suc retryCount) tab' s'' of
                  (r, sf, evr) \<Rightarrow> (r, sf, ev @ evc @ evr))))"

text \<open>
  The rest of the try block of one loop iteration of processBatchUrls, from the answer of
  processSingleUrl.
\<close>

definition afterSingleUrl ::
  "jsstring \<Rightarrow> batch_results \<Rightarrow> single_result \<times> extension_state \<times> event list \<Rightarrow>
     batch_results \<times> extension_state \<times> event list" where
  "afterSingleUrl url results answer =
     (case answer of
        (Saved u profile profileId, s2, ev) \<Rightarrow>
          (results\<lparr>successful := successful results @ [(url, profile, profileId)],
                   summarySuccess := summarySuccess results + 1\<rparr>,
           s2\<lparr>successCount := successCount s2 + 1\<rparr>,
           ev @ [StateNow (s2\<lparr>successCount := successCount s2 + 1\<rparr>)])
      | (NotSaved isDuplicate err, s2, ev) \<Rightarrow>
          if isDuplicate then
            (results\<lparr>skipped := skipped results @ [(url, str ''duplicate'', err)],
                     summaryDuplicates := summaryDuplicates results + 1\<rparr>,
             s2, ev)
          else
            (results\<lparr>failed := failed results @ [(url, err)],
                     summaryErrors := summaryErrors results + 1\<rparr>,
             s2\<lparr>errorCount := errorCount s2 + 1\<rparr>,
             ev @ [StateNow (s2\<lparr>errorCount := errorCount s2 + 1\<rparr>)]))"

text \<open>
  The rest of the for loop, from the end of the try block of iteration \<open>i\<close>: the delay,
  the test of \<open>isProcessing\<close>, the URLs still to do.
\<close>

definition afterIteration ::
  "(nat \<Rightarrow> nat \<Rightarrow> attempt_env) \<Rightarrow> nat \<Rightarrow> nat \<Rightarrow> jsstring list \<Rightarrow>
     batch_results \<times> extension_state \<times> event list \<Rightarrow>
     batch_results \<times> extension_state \<times> event list" where
  "afterIteration envs totalUrls i rest iteration =
     (case iteration of
        (results', s', ev) \<Rightarrow>
          if \<not> isProcessing s' then
            (results', s', ev @ (if i + 1 < totalUrls then [Wait PROCESSING_DELAY] else []))
          else
            (case batchLoop envs totalUrls (Suc i) rest s' results' of
               (resultsF, sF, evF) \<Rightarrow>
                 (resultsF, sF,
                  ev @ (if i + 1 < totalUrls then [Wait PROCESSING_DELAY] else []) @ evF)))"

text \<open>The rest of handleStartBatchProcessing, from the answer of processBatchUrls.\<close>

definition afterBatch ::
  "batch_results \<times> extension_state \<times> event list \<Rightarrow> response \<times> extension_state \<times> event list" where
  "afterBatch batch =
     (case batch of
        (results, s2, ev) \<Rightarrow> (Completed results, resetState s2, ev @ [StateNow (resetState s2)]))"

text \<open>
  How far a handler has come: it has answered, or it is suspended at the await with the
  tab it opened.
\<close>

datatype handler_progress = Answered response | AtLoadWait nat

text \<open>
  handleStartBatchProcessing up to the await. Where the request is accepted and
  \<open>chrome.tabs.create\<close> answers with a tab, the handler has set up the job, counted the
  first URL, sent the progress update, opened the tab and added it to the set. Otherwise
  it never waits for that tab, and its whole run is taken.
\<close>

definition startUntilLoad ::
  "(nat \<Rightarrow> nat \<Rightarrow> attempt_env) \<Rightarrow> nat \<Rightarrow> message_data \<Rightarrow> extension_state \<Rightarrow>
     handler_progress \<times> extension_state \<times> event list" where
  "startUntilLoad envs startTime data s =
     (case (isProcessing s, data, tabsCreate (envs 0 0)) of
        (False, Data (Some (u # us)), Inr tabId) \<Rightarrow>
          (let s1 = s\<lparr> isProcessing := True, currentBatch := u # us, processedCount := 0,
                       successCount := 0, errorCount := 0,
                       processingStartTime := Some startTime \<rparr>;
               s2 = s1\<lparr>processedCount := 0 + 1\<rparr>
           in case attemptUntilLoad u (envs 0 0) s2 of
                (created, s3, ev) \<Rightarrow>
                  (AtLoadWait tabId, s3,
                   [StateNow s1, StateNow s2, ProgressUpdate (0 + 1) (length (u # us)) u] @ ev))
      | _ \<Rightarrow>
          (case handleStartBatchProcessing envs startTime data s of
             (r, s', ev) \<Rightarrow> (Answered r, s', ev)))"

text \<open>The same handler from the answer of that waitForTabComplete to its end.\<close>

definition resumeFromLoad ::
  "(nat \<Rightarrow> nat \<Rightarrow> attempt_env) \<Rightarrow> jsstring \<Rightarrow> jsstring list \<Rightarrow> nat \<Rightarrow> extension_state \<Rightarrow>
     response \<times> extension_state \<times> event list" where
  "resumeFromLoad envs u us tabId s =
     afterBatch
       (afterIteration envs (length (u # us)) 0 us
          (afterSingleUrl u (emptyResults (length (u # us)))
             (afterAttempt u (envs 0) 0 (attemptFromLoad u (envs 0 0) tabId s))))"

text \<open>
  handleStopBatchProcessing does not wait for the closeTab calls it makes. Each of them
  goes on when its \<open>chrome.tabs.remove\<close> has answered, and deletes its id from the set
  as it then is.
\<close>

fun closeTabsAnswered :: "nat list \<Rightarrow> extension_state \<Rightarrow> extension_state \<times> event list" where
  "closeTabsAnswered [] s = (s, [])"
| "closeTabsAnswered (tabId # tabIds) s =
     (case closeTabsAnswered tabIds (s\<lparr>activeTabs := setDelete tabId (activeTabs s)\<rparr>) of
        (s', ev) \<Rightarrow> (s', StateNow (s\<lparr>activeTabs := setDelete tabId (activeTabs s)\<rparr>) # ev))"

text \<open>
  One schedule of the event loop, as four steps, each with how far its handler came, the
  state it left and what it did:
  \<^enum> a start request for the URLs \<open>uA # usA\<close> runs to its await (run A);
  \<^enum> a stop request is handled, and the tabs it asked to close are closed;
  \<^enum> a start request for \<open>uB # usB\<close> is handled up to its await (run B);
  \<^enum> the waitForTabComplete of run A answers, and run A goes on to its end while run
    B is still waiting for its tab to load.

  Where the first request never waits for a tab there is only the first step.
\<close>

definition stopThenRestart ::
  "(nat \<Rightarrow> nat \<Rightarrow> attempt_env) \<Rightarrow> nat \<Rightarrow> jsstring \<Rightarrow> jsstring list \<Rightarrow>
   (nat \<Rightarrow> nat \<Rightarrow> attempt_env) \<Rightarrow> nat \<Rightarrow> jsstring \<Rightarrow> jsstring list \<Rightarrow> extension_state \<Rightarrow>
     (handler_progress \<times> extension_state \<times> event list) list" where
  "stopThenRestart envsA startA uA usA envsB startB uB usB s =
     (case startUntilLoad envsA startA (Data (Some (uA # usA))) s of
        (Answered r, s1, ev1) \<Rightarrow> [(Answered r, s1, ev1)]
      | (AtLoadWait tabA, s1, ev1) \<Rightarrow>
          (case handleStopBatchProcessing s1 of
             (stopped, s2, ev2) \<Rightarrow>
               (case closeTabsAnswered (activeTabs s1) s2 of
                  (s2', ev2') \<Rightarrow>
                    (case startUntilLoad envsB startB (Data (Some (uB # usB))) s2' of
                       (progressB, s3, ev3) \<Rightarrow>
                         (case resumeFromLoad envsA uA usA tabA s3 of
                            (answerA, s4, ev4) \<Rightarrow>
                              [(AtLoadWait tabA, s1, ev1), (Answered stopped, s2', ev2 @ ev2'),
                               (progressB, s3, ev3), (Answered answerA, s4, ev4)])))))"

section \<open>The popup\<close>

definition MIN_URLS_REQUIRED :: nat where
  "MIN_URLS_REQUIRED = 3"

record popup_state =
  linkedinUrls :: "jsstring list"
  popupIsProcessing :: bool

datatype popup_action = ShowWarning | SendStop | SendStart "jsstring list"

text \<open>The click handler of the process button: what it asks of the background.\<close>

definition processBtnClick :: "popup_state \<Rightarrow> popup_action" where
  "processBtnClick popup =
     (if length (linkedinUrls popup) < MIN_URLS_REQUIRED then ShowWarning
      else if popupIsProcessing popup then SendStop
      else SendStart (linkedinUrls popup))"

text \<open>A click and the background's handling of the message it sends, if it sends one.\<close>

definition clickProcess ::
  "(nat \<Rightarrow> nat \<Rightarrow> attempt_env) \<Rightarrow> nat \<Rightarrow> popup_state \<Rightarrow> extension_state \<Rightarrow>
     response option \<times> extension_state \<times> event list" where
  "clickProcess envs startTime popup s =
     (case processBtnClick popup of
        ShowWarning \<Rightarrow> (None, s, [])
      | SendStop \<Rightarrow>
          (case handleStopBatchProcessing s of (r, s', ev) \<Rightarrow> (Some r, s', ev))
      | SendStart urls \<Rightarrow>
          (case handleStartBatchProcessing envs startTime (Data (Some urls)) s of
             (r, s', ev) \<Rightarrow> (Some r, s', ev)))"

section \<open>The backend: POST /profiles\<close>

text \<open>
  The request body is a JSON object; a field is absent (\<open>None\<close>) or has a value of
  the type the model declares for it. The functions of validator.js that both
  express-validator and Sequelize call are taken as given: \<open>isURL\<close>, \<open>isLength\<close>
  (its count of a string's length between two bounds) and \<open>escape\<close>.
\<close>

record validator_lib =
  isURL :: "jsstring \<Rightarrow> bool"
  isLength :: "jsstring \<Rightarrow> nat \<Rightarrow> nat \<Rightarrow> bool"
  escape :: "jsstring \<Rightarrow> jsstring"

record profile_body =
  bodyName :: "jsstring option"
  bodyUrl :: "jsstring option"
  bodyAbout :: "jsstring option"
  bodyBio :: "jsstring option"
  bodyLocation :: "jsstring option"
  bodyFollowerCount :: "int option"
  bodyConnectionCount :: "int option"
  bodyBioLine :: "jsstring option"
  bodyHeadline :: "jsstring option"
  bodyIndustry :: "jsstring option"
  bodyProfilePicture :: "jsstring option"
  bodyExperience :: "jsstring list option"
  bodyEducation :: "jsstring list option"
  bodySkills :: "jsstring list option"
  bodyExtractionStatus :: "jsstring option"

text \<open>A row of the table \<open>profiles\<close>; \<open>None\<close> is SQL \<open>NULL\<close>.\<close>

record profile_row =
  rowId :: nat
  rowName :: jsstring
  rowUrl :: jsstring
  rowAbout :: "jsstring option"
  rowBio :: "jsstring option"
  rowLocation :: "jsstring option"
  rowFollowerCount :: int
  rowConnectionCount :: int
  rowBioLine :: "jsstring option"
  rowHeadline :: "jsstring option"
  rowIndustry :: "jsstring option"
  rowProfilePicture :: "jsstring option"
  rowExperience :: "jsstring list"
  rowEducation :: "jsstring list"
  rowSkills :: "jsstring list"
  rowExtractedAt :: nat
  rowLastUpdated :: nat
  rowExtractionStatus :: jsstring
  rowCreatedAt :: nat

record profile_store =
  storedRows :: "profile_row list"
  nextId :: nat

definition allowedStatuses :: "jsstring list" where
  "allowedStatuses = [str ''pending'', str ''success'', str ''failed'', str ''partial'']"

text \<open>
  \<open>isInt\<close>, of the model and of express-validator, is run on \<open>String(value)\<close>. A
  whole number prints as a string of digits when its magnitude is below \<open>10^21\<close> and in
  exponent form from there on, which \<open>isInt\<close> refuses.
\<close>

definition printsAsInteger :: "int \<Rightarrow> bool" where
  "printsAsInteger n = (\<bar>n\<bar> < 1000000000000000000000)"

subsection \<open>The Profile model\<close>

definition findByUrl :: "profile_store \<Rightarrow> jsstring \<Rightarrow> profile_row option" where
  "findByUrl store url = find (\<lambda>row. rowUrl row = url) (storedRows store)"

text \<open>The hook beforeValidate: a LinkedIn URL without a scheme gets \<open>https://\<close>.\<close>

definition beforeValidate :: "profile_body \<Rightarrow> profile_body" where
  "beforeValidate profile =
     (case bodyUrl profile of
        None \<Rightarrow> profile
      | Some url \<Rightarrow>
          if url \<noteq> [] \<and> \<not> startsWith url (str ''http'') then
            (if jsIncludes url (str ''linkedin.com/in/'') then
               profile\<lparr>bodyUrl := Some (str ''https://'' @ url)\<rparr>
             else profile)
          else profile)"

text \<open>
  The validators of the model, attribute by attribute: the names of the attributes that
  fail. A validator is not run on an attribute that is null; \<open>name\<close> and \<open>url\<close> may not
  be null. Sequelize's \<open>notEmpty\<close> refuses a string of white space only.
\<close>

definition lengthErrors ::
  "validator_lib \<Rightarrow> jsstring \<Rightarrow> jsstring option \<Rightarrow> nat \<Rightarrow> nat \<Rightarrow> jsstring list" where
  "lengthErrors lib field v lo hi =
     (case v of
        None \<Rightarrow> []
      | Some text \<Rightarrow> if isLength lib text lo hi then [] else [field])"

definition modelErrors :: "validator_lib \<Rightarrow> profile_body \<Rightarrow> jsstring list" where
  "modelErrors lib profile =
     (case bodyName profile of
        None \<Rightarrow> [str ''name'']
      | Some n \<Rightarrow>
          (if list_all isWhiteSpace n then [str ''name''] else []) @
          (if isLength lib n 1 255 then [] else [str ''name''])) @
     (case bodyUrl profile of
        None \<Rightarrow> [str ''url'']
      | Some url \<Rightarrow>
          (if list_all isWhiteSpace url then [str ''url''] else []) @
          (if url = [] \<or> \<not> jsIncludes url (str ''linkedin.com/in/'') then [str ''url''] else [])) @
     lengthErrors lib (str ''about'') (bodyAbout profile) 0 5000 @
     lengthErrors lib (str ''bio'') (bodyBio profile) 0 1000 @
     lengthErrors lib (str ''location'') (bodyLocation profile) 0 255 @
     (case bodyFollowerCount profile of
        None \<Rightarrow> []
      | Some n \<Rightarrow> if n < 0 \<or> \<not> printsAsInteger n then [str ''followerCount''] else []) @
     (case bodyConnectionCount profile of
        None \<Rightarrow> []
      | Some n \<Rightarrow> if n < 0 \<or> \<not> printsAsInteger n then [str ''connectionCount''] else []) @
     lengthErrors lib (str ''bioLine'') (bodyBioLine profile) 0 500 @
     lengthErrors lib (str ''headline'') (bodyHeadline profile) 0 500 @
     lengthErrors lib (str ''industry'') (bodyIndustry profile) 0 255 @
     (case bodyProfilePicture profile of
        None \<Rightarrow> []
      | Some picture \<Rightarrow> if isURL lib picture then [] else [str ''profilePicture'']) @
     (case bodyExtractionStatus profile of
        None \<Rightarrow> []
      | Some st \<Rightarrow> if st \<in> set allowedStatuses then [] else [str ''extractionStatus''])"

datatype create_error = SequelizeValidationError "jsstring list" | SequelizeUniqueConstraintError

text \<open>
  \<open>Profile.create\<close>: the hook beforeValidate, the validators, the hook beforeCreate (the
  two dates, and pending for a status that is not set), the column defaults, and the
  insert, which the unique index on \<open>url\<close> refuses for a URL already stored. The id is
  the table's next one.
\<close>

definition profileCreate ::
  "validator_lib \<Rightarrow> nat \<Rightarrow> profile_store \<Rightarrow> profile_body \<Rightarrow>
     create_error + profile_row \<times> profile_store" where
  "profileCreate lib now store vals =
     (let profile = beforeValidate vals
      in if modelErrors lib profile \<noteq> [] then Inl (SequelizeValidationError (modelErrors lib profile))
         else
           (case (bodyName profile, bodyUrl profile) of
              (Some n, Some url) \<Rightarrow>
                if list_ex (\<lambda>row. rowUrl row = url) (storedRows store) then
                  Inl SequelizeUniqueConstraintError
                else
                  (let row =
                     \<lparr> rowId = nextId store, rowName = n, rowUrl = url,
                       rowAbout = bodyAbout profile, rowBio = bodyBio profile,
                       rowLocation = bodyLocation profile,
                       rowFollowerCount = (case bodyFollowerCount profile of None \<Rightarrow> 0 | Some c \<Rightarrow> c),
                       rowConnectionCount =
                         (case bodyConnectionCount profile of None \<Rightarrow> 0 | Some c \<Rightarrow> c),
                       rowBioLine = bodyBioLine profile, rowHeadline = bodyHeadline profile,
                       rowIndustry = bodyIndustry profile,
                       rowProfilePicture = bodyProfilePicture profile,
                       rowExperience = (case bodyExperience profile of None \<Rightarrow> [] | Some xs \<Rightarrow> xs),
                       rowEducation = (case bodyEducation profile of None \<Rightarrow> [] | Some xs \<Rightarrow> xs),
                       rowSkills = (case bodySkills profile of None \<Rightarrow> [] | Some xs \<Rightarrow> xs),
                       rowExtractedAt = now, rowLastUpdated = now,
                       rowExtractionStatus =
                         (case bodyExtractionStatus profile of
                            None \<Rightarrow> str ''pending''
                          | Some st \<Rightarrow> if st = [] then str ''pending'' else st),
                       rowCreatedAt = now \<rparr>
                   in Inr (row, store\<lparr>storedRows := storedRows store @ [row],
                                        nextId := nextId store + 1\<rparr>))
            | _ \<Rightarrow> Inl (SequelizeValidationError (modelErrors lib profile))))"

subsection \<open>ProfileController.createProfile\<close>

datatype reply =
    Reply201 profile_row
  | Reply400Missing
  | Reply400Url
  | Reply400Validation "jsstring list"
  | Reply409 nat jsstring jsstring
  | Reply500

definition falsy :: "jsstring option \<Rightarrow> bool" where
  "falsy v = (case v of None \<Rightarrow> True | Some text \<Rightarrow> text = [])"

text \<open>\<open>x || d\<close> for a number and for a string.\<close>

definition orNumber :: "int option \<Rightarrow> int \<Rightarrow> int" where
  "orNumber v d = (case v of None \<Rightarrow> d | Some n \<Rightarrow> if n = 0 then d else n)"

definition orString :: "jsstring option \<Rightarrow> jsstring \<Rightarrow> jsstring" where
  "orString v d = (case v of None \<Rightarrow> d | Some text \<Rightarrow> if text = [] then d else text)"

definition orNull :: "jsstring option \<Rightarrow> jsstring option" where
  "orNull v = (case v of None \<Rightarrow> None | Some text \<Rightarrow> if text = [] then None else Some text)"

text \<open>
  The replies of the catch block: 400 for a SequelizeValidationError, 500 for anything
  else, of which the model produces the unique constraint error.
\<close>

definition createReply ::
  "profile_store \<Rightarrow> create_error + profile_row \<times> profile_store \<Rightarrow> reply \<times> profile_store" where
  "createReply store created =
     (case created of
        Inr (row, store') \<Rightarrow> (Reply201 row, store')
      | Inl (SequelizeValidationError failing) \<Rightarrow> (Reply400Validation failing, store)
      | Inl SequelizeUniqueConstraintError \<Rightarrow> (Reply500, store))"

definition createProfile ::
  "validator_lib \<Rightarrow> nat \<Rightarrow> profile_store \<Rightarrow> profile_body \<Rightarrow> reply \<times> profile_store" where
  "createProfile lib now store profileData =
     (if falsy (bodyName profileData) \<or> falsy (bodyUrl profileData) then (Reply400Missing, store)
      else
        (case findByUrl store (orString (bodyUrl profileData) []) of
           Some existingProfile \<Rightarrow>
             (Reply409 (rowId existingProfile) (rowName existingProfile) (rowUrl existingProfile),
              store)
         | None \<Rightarrow>
             createReply store
               (profileCreate lib now store
                  (profileData
                     \<lparr> bodyFollowerCount := Some (orNumber (bodyFollowerCount profileData) 0),
                       bodyConnectionCount := Some (orNumber (bodyConnectionCount profileData) 0),
                       bodyExtractionStatus :=
                         Some (orString (bodyExtractionStatus profileData) (str ''success'')) \<rparr>))))"

subsection \<open>The middleware validateProfile and the route\<close>

text \<open>
  express-validator runs every validator of a chain on the value as received and
  collects the failures; \<open>optional()\<close> skips a field that is absent. The sanitizers
  (\<open>trim\<close>, \<open>escape\<close>) rewrite the body that the controller then reads.
\<close>

definition bodyLengthErrors ::
  "validator_lib \<Rightarrow> jsstring \<Rightarrow> jsstring option \<Rightarrow> nat \<Rightarrow> jsstring list" where
  "bodyLengthErrors lib field v hi =
     (case v of
        None \<Rightarrow> []
      | Some text \<Rightarrow> if isLength lib text 0 hi then [] else [field])"

definition validationErrors :: "validator_lib \<Rightarrow> profile_body \<Rightarrow> jsstring list" where
  "validationErrors lib body =
     (if orString (bodyName body) [] = [] then [str ''name''] else []) @
     (if isLength lib (orString (bodyName body) []) 1 255 then [] else [str ''name'']) @
     (if orString (bodyUrl body) [] = [] then [str ''url''] else []) @
     (if isURL lib (orString (bodyUrl body) []) then [] else [str ''url'']) @
     (case bodyUrl body of
        None \<Rightarrow> [str ''url'']
      | Some url \<Rightarrow> if jsIncludes url (str ''linkedin.com/in/'') then [] else [str ''url'']) @
     bodyLengthErrors lib (str ''about'') (bodyAbout body) 5000 @
     bodyLengthErrors lib (str ''bio'') (bodyBio body) 1000 @
     bodyLengthErrors lib (str ''location'') (bodyLocation body) 255 @
     bodyLengthErrors lib (str ''bioLine'') (bodyBioLine body) 500 @
     bodyLengthErrors lib (str ''headline'') (bodyHeadline body) 500 @
     bodyLengthErrors lib (str ''industry'') (bodyIndustry body) 255 @
     (case bodyFollowerCount body of
        None \<Rightarrow> []
      | Some n \<Rightarrow> if n < 0 \<or> \<not> printsAsInteger n then [str ''followerCount''] else []) @
     (case bodyConnectionCount body of
        None \<Rightarrow> []
      | Some n \<Rightarrow> if n < 0 \<or> \<not> printsAsInteger n then [str ''connectionCount''] else []) @
     (case bodyProfilePicture body of
        None \<Rightarrow> []
      | Some picture \<Rightarrow> if isURL lib picture then [] else [str ''profilePicture'']) @
     (case bodyExtractionStatus body of
        None \<Rightarrow> []
      | Some st \<Rightarrow> if st \<in> set allowedStatuses then [] else [str ''extractionStatus''])"

definition sanitizeBody :: "validator_lib \<Rightarrow> profile_body \<Rightarrow> profile_body" where
  "sanitizeBody lib body =
     body\<lparr> bodyName := map_option (\<lambda>text. escape lib (trim text)) (bodyName body),
           bodyAbout := map_option trim (bodyAbout body),
           bodyBio := map_option trim (bodyBio body),
           bodyLocation := map_option trim (bodyLocation body),
           bodyBioLine := map_option trim (bodyBioLine body),
           bodyHeadline := map_option trim (bodyHeadline body),
           bodyIndustry := map_option trim (bodyIndustry body) \<rparr>"

definition validateProfile :: "validator_lib \<Rightarrow> profile_body \<Rightarrow> jsstring list + profile_body" where
  "validateProfile lib body =
     (if validationErrors lib body \<noteq> [] then Inl (validationErrors lib body)
      else Inr (sanitizeBody lib body))"

text \<open>\<open>router.post('/', validateProfile, ProfileController.createProfile)\<close>\<close>

definition postProfilesRoute ::
  "validator_lib \<Rightarrow> nat \<Rightarrow> profile_store \<Rightarrow> profile_body \<Rightarrow> reply \<times> profile_store" where
  "postProfilesRoute lib now store body =
     (case validateProfile lib body of
        Inl failing \<Rightarrow> (Reply400Validation failing, store)
      | Inr sanitized \<Rightarrow> createProfile lib now store sanitized)"

subsection \<open>The handler of POST /api/profiles in the server file\<close>

definition postApiProfiles ::
  "validator_lib \<Rightarrow> nat \<Rightarrow> profile_store \<Rightarrow> profile_body \<Rightarrow> reply \<times> profile_store" where
  "postApiProfiles lib now store profileData =
     (if falsy (bodyName profileData) \<or> falsy (bodyUrl profileData) then (Reply400Missing, store)
      else if \<not> jsIncludes (orString (bodyUrl profileData) []) (str ''linkedin.com/in/'') then
        (Reply400Url, store)
      else
        (case findByUrl store (orString (bodyUrl profileData) []) of
           Some existingProfile \<Rightarrow>
             (Reply409 (rowId existingProfile) (rowName existingProfile) (rowUrl existingProfile),
              store)
         | None \<Rightarrow>
             createReply store
               (profileCreate lib now store
                  \<lparr> bodyName = bodyName profileData, bodyUrl = bodyUrl profileData,
                    bodyAbout = orNull (bodyAbout profileData),
                    bodyBio = orNull (bodyBio profileData),
                    bodyLocation = orNull (bodyLocation profileData),
                    bodyFollowerCount = Some (orNumber (bodyFollowerCount profileData) 0),
                    bodyConnectionCount = Some (orNumber (bodyConnectionCount profileData) 0),
                    bodyBioLine = orNull (bodyBioLine profileData),
                    bodyHeadline = orNull (bodyHeadline profileData),
                    bodyIndustry = orNull (bodyIndustry profileData),
                    bodyProfilePicture = orNull (bodyProfilePicture profileData),
                    bodyExperience = Some (case bodyExperience profileData of None \<Rightarrow> [] | Some xs \<Rightarrow> xs),
                    bodyEducation = Some (case bodyEducation profileData of None \<Rightarrow> [] | Some xs \<Rightarrow> xs),
                    bodySkills = Some (case bodySkills profileData of None \<Rightarrow> [] | Some xs \<Rightarrow> xs),
                    bodyExtractionStatus =
                      Some (orString (bodyExtractionStatus profileData) (str ''success'')) \<rparr>)))"

section \<open>Auxiliary definitions for the proofs and example runs\<close>

text \<open>
  \<open>tracks s x\<close>: the state \<open>x\<close> differs from \<open>s\<close> at most in its tracked tabs, of
  which it has at most one. \<open>atMostOne b x\<close>: the running flag of \<open>x\<close> is \<open>b\<close> and it
  has at most one tracked tab. The rest are states, environments and a popup queue to
  run the functions on.
\<close>

definition tracks :: "extension_state \<Rightarrow> extension_state \<Rightarrow> bool" where
  "tracks s x = (x = s\<lparr>activeTabs := activeTabs x\<rparr> \<and> setSize (activeTabs x) \<le> 1)"

definition atMostOne :: "bool \<Rightarrow> extension_state \<Rightarrow> bool" where
  "atMostOne running x = (isProcessing x = running \<and> setSize (activeTabs x) \<le> 1)"

definition idleState :: extension_state where
  "idleState =
     \<lparr> isProcessing = False, currentBatch = [], processedCount = 0, successCount = 0,
       errorCount = 0, activeTabs = [], processingStartTime = None \<rparr>"

definition exampleUrl :: jsstring where
  "exampleUrl = str ''https://www.linkedin.com/in/ada''"

definition createdResponse :: http_response where
  "createdResponse =
     \<lparr> ok = True, status = 201,
       json = Inr \<lparr> successFlag = True, message = Some (str ''Profile created successfully''),
                    profileIdRead = Inr (Some 1) \<rparr> \<rparr>"

definition goodEnv :: attempt_env where
  "goodEnv =
     \<lparr> tabsCreate = Inr 7,
       tabStatus = (\<lambda>k. TabStatus (if k < 3 then str ''loading'' else str ''complete'')),
       scriptResult = Inr (Some examplePage), clock = [], clockCatch = [],
       fetchResult = Inr createdResponse, tabsRemove = None \<rparr>"


definition brokenPageEnv :: attempt_env where
  "brokenPageEnv = goodEnv\<lparr>scriptResult := Inr (Some throwingPage)\<rparr>"

definition runningState :: extension_state where
  "runningState =
     \<lparr> isProcessing = True, currentBatch = [exampleUrl, exampleUrl, exampleUrl],
       processedCount = 1, successCount = 0, errorCount = 0, activeTabs = [7],
       processingStartTime = Some 1000 \<rparr>"

definition shortQueue :: popup_state where
  "shortQueue = \<lparr> linkedinUrls = [exampleUrl, exampleUrl], popupIsProcessing = False \<rparr>"

text \<open>A validator library for the example requests, a store, a request body and a row.\<close>

definition plainValidator :: validator_lib where
  "plainValidator =
     \<lparr> isURL = (\<lambda>text. jsIncludes text (str ''.'')),
       isLength = (\<lambda>text lo hi. lo \<le> length text \<and> length text \<le> hi),
       escape = (\<lambda>text. text) \<rparr>"

definition emptyStore :: profile_store where
  "emptyStore = \<lparr> storedRows = [], nextId = 1 \<rparr>"

definition minimalBody :: "jsstring \<Rightarrow> jsstring \<Rightarrow> profile_body" where
  "minimalBody n url =
     \<lparr> bodyName = Some n, bodyUrl = Some url, bodyAbout = None, bodyBio = None,
       bodyLocation = None, bodyFollowerCount = None, bodyConnectionCount = None,
       bodyBioLine = None, bodyHeadline = None, bodyIndustry = None,
       bodyProfilePicture = None, bodyExperience = None, bodyEducation = None,
       bodySkills = None, bodyExtractionStatus = None \<rparr>"

definition storedAda :: "jsstring \<Rightarrow> jsstring \<Rightarrow> nat \<Rightarrow> profile_row" where
  "storedAda url st now =
     \<lparr> rowId = 1, rowName = str ''Ada'', rowUrl = url, rowAbout = None, rowBio = None,
       rowLocation = None, rowFollowerCount = 0, rowConnectionCount = 0, rowBioLine = None,
       rowHeadline = None, rowIndustry = None, rowProfilePicture = None, rowExperience = [],
       rowEducation = [], rowSkills = [], rowExtractedAt = now, rowLastUpdated = now,
       rowExtractionStatus = st, rowCreatedAt = now \<rparr>"

definition unprefixedUrl :: jsstring where
  "unprefixedUrl = str ''linkedin.com/in/ada''"

definition storeWithAda :: "jsstring \<Rightarrow> jsstring \<Rightarrow> nat \<Rightarrow> profile_store" where
  "storeWithAda url st now = \<lparr> storedRows = [storedAda url st now], nextId = 2 \<rparr>"

text \<open>
  For the schedule of a stop followed by a new start: a queue of three URLs; the tab of
  run A's first attempt, still loading at the first two polls and gone at the third,
  after the stop has closed it; pages that load, extract and save in a tab with a given
  id. \<open>trackedTabs\<close> reads the running flag and the set off every state written.
\<close>

definition secondUrl :: jsstring where
  "secondUrl = str ''https://www.linkedin.com/in/grace''"

definition thirdUrl :: jsstring where
  "thirdUrl = str ''https://www.linkedin.com/in/alan''"

definition closedTabEnv :: attempt_env where
  "closedTabEnv =
     goodEnv\<lparr>tabStatus :=
       (\<lambda>k. if k < 3 then TabStatus (str ''loading'') else LastError (str ''No tab with id: 7.''))\<rparr>"

definition envWithTab :: "nat \<Rightarrow> attempt_env" where
  "envWithTab tabId = goodEnv\<lparr>tabsCreate := Inr tabId\<rparr>"

definition firstRunEnvs :: "nat \<Rightarrow> nat \<Rightarrow> attempt_env" where
  "firstRunEnvs i retryCount =
     (if i = 0 \<and> retryCount = 0 then closedTabEnv else envWithTab (9 + i))"

definition secondRunEnvs :: "nat \<Rightarrow> nat \<Rightarrow> attempt_env" where
  "secondRunEnvs i retryCount = envWithTab (8 + 10 * i + 100 * retryCount)"

definition trackedTabs :: "event list \<Rightarrow> (bool \<times> nat list) list" where
  "trackedTabs ev = map (\<lambda>x. (isProcessing x, activeTabs x)) (snapshots ev)"

definition secondJob :: "nat \<Rightarrow> nat \<Rightarrow> nat list \<Rightarrow> extension_state" where
  "secondJob processed succeeded tabs =
     \<lparr> isProcessing = True, currentBatch = [exampleUrl, secondUrl, thirdUrl],
       processedCount = processed, successCount = succeeded, errorCount = 0, activeTabs = tabs,
       processingStartTime = Some 2000 \<rparr>"

definition exampleSchedule :: "(handler_progress \<times> extension_state \<times> event list) list" where
  "exampleSchedule =
     stopThenRestart firstRunEnvs 1000 exampleUrl [secondUrl, thirdUrl]
       secondRunEnvs 2000 exampleUrl [secondUrl, thirdUrl] idleState"



section \<open>Verified properties\<close>

subsection \<open>The steps of the extractor and the fields they leave alone\<close>

lemma extractName_status:
  "extractName doc sels pd = Inr pd' \<Longrightarrow> extractionStatus pd' = extractionStatus pd"
  by (induction sels) (auto split: sum.splits option.splits if_splits)

lemma extractHeadline_status:
  "extractHeadline doc sels pd = Inr pd' \<Longrightarrow> extractionStatus pd' = extractionStatus pd"
  by (induction sels) (auto split: sum.splits option.splits if_splits)

lemma extractLocation_status:
  "extractLocation doc sels pd = Inr pd' \<Longrightarrow> extractionStatus pd' = extractionStatus pd"
proof (induction sels arbitrary: pd)
  case Nil
  then show ?case by simp
next
  case (Cons s sels)
  show ?case
  proof (cases "querySelectorAll doc s")
    case (Inl e)
    with Cons.prems show ?thesis by simp
  next
    case (Inr els)
    show ?thesis
    proof (cases "locationAmong els")
      case None
      with Inr Cons.prems Cons.IH [of pd] show ?thesis
        by (auto split: if_splits)
    next
      case (Some loc)
      with Inr Cons.prems Cons.IH [of "pd\<lparr>location := loc\<rparr>"] show ?thesis
        by (auto simp: Let_def split: if_splits)
    qed
  qed
qed

lemma extractConnectionCount_status:
  "extractionStatus (extractConnectionCount doc sels pd) = extractionStatus pd"
  by (induction sels) (auto split: sum.splits option.splits if_splits)

lemma extractFollowerCount_status:
  "extractionStatus (extractFollowerCount doc sels pd) = extractionStatus pd"
  by (induction sels) (auto split: sum.splits option.splits if_splits)

lemma fallbackScan_status:
  "extractionStatus (fallbackScan els pd) = extractionStatus pd"
  by (induction els arbitrary: pd)
     (auto simp: fallbackConnection_def fallbackFollower_def split: option.splits)

lemma fallbackCounts_status:
  "fallbackCounts doc pd = Inr pd' \<Longrightarrow> extractionStatus pd' = extractionStatus pd"
  by (auto simp: fallbackCounts_def fallbackScan_status split: if_splits sum.splits)

lemma connectionFromLinks_status:
  "extractionStatus (connectionFromLinks links pd) = extractionStatus pd"
  by (induction links) (auto split: option.splits)

lemma connectionLinks_status:
  "connectionLinks doc pd = Inr pd' \<Longrightarrow> extractionStatus pd' = extractionStatus pd"
  by (auto simp: connectionLinks_def connectionFromLinks_status split: if_splits sum.splits)

lemma followerFromLinks_status:
  "extractionStatus (followerFromLinks links pd) = extractionStatus pd"
  by (induction links) (auto split: option.splits)

lemma followerLinks_status:
  "followerLinks doc pd = Inr pd' \<Longrightarrow> extractionStatus pd' = extractionStatus pd"
  by (auto simp: followerLinks_def followerFromLinks_status split: if_splits sum.splits)

lemma sanityCheck_status:
  "extractionStatus (sanityCheck pd) = extractionStatus pd"
  by (simp add: sanityCheck_def Let_def)

lemma extractProfilePicture_keeps:
  "extractProfilePicture doc sels pd = Inr pd' \<Longrightarrow>
     extractionStatus pd' = extractionStatus pd \<and> connectionCount pd' = connectionCount pd \<and>
     followerCount pd' = followerCount pd"
  by (induction sels) (auto split: sum.splits option.splits if_splits)

lemma extractAbout_keeps:
  "extractAbout doc sels pd = Inr pd' \<Longrightarrow>
     extractionStatus pd' = extractionStatus pd \<and> connectionCount pd' = connectionCount pd \<and>
     followerCount pd' = followerCount pd"
  by (induction sels) (auto split: sum.splits option.splits if_splits)

lemma extractExperience_keeps:
  "extractExperience doc pd = Inr pd' \<Longrightarrow>
     extractionStatus pd' = extractionStatus pd \<and> connectionCount pd' = connectionCount pd \<and>
     followerCount pd' = followerCount pd"
  by (auto simp: extractExperience_def split: sum.splits if_splits)

lemma extractSkills_keeps:
  "extractSkills doc pd = Inr pd' \<Longrightarrow>
     extractionStatus pd' = extractionStatus pd \<and> connectionCount pd' = connectionCount pd \<and>
     followerCount pd' = followerCount pd"
  by (auto simp: extractSkills_def split: sum.splits if_splits)

lemma determineStatus_counts:
  "connectionCount (determineStatus pd) = connectionCount pd \<and>
   followerCount (determineStatus pd) = followerCount pd"
  by (simp add: determineStatus_def)

lemma andThen_Inr:
  "andThen r f = Inr y \<Longrightarrow> \<exists>x. r = Inr x \<and> f x = Inr y"
  by (cases r) (simp_all add: andThen_def)

lemma extractCounts_status:
  assumes "extractCounts doc now = Inr pd"
  shows "extractionStatus pd = str ''success''"
proof -
  from assms obtain pd1 pd2 pd3 pd4 pd5 where
    s1: "extractName doc nameSelectors (initialProfileData now) = Inr pd1" and
    s2: "extractHeadline doc headlineSelectors pd1 = Inr pd2" and
    s3: "extractLocation doc locationSelectors pd2 = Inr pd3" and
    s4: "fallbackCounts doc (extractFollowerCount doc followerSelectors
           (extractConnectionCount doc connectionSelectors pd3)) = Inr pd4" and
    s5: "connectionLinks doc pd4 = Inr pd5" and
    s6: "followerLinks doc pd5 = Inr pd"
    unfolding extractCounts_def by (blast dest!: andThen_Inr)
  have "extractionStatus (initialProfileData now) = str ''success''"
    by (simp add: initialProfileData_def)
  with extractName_status [OF s1] extractHeadline_status [OF s2] extractLocation_status [OF s3]
    fallbackCounts_status [OF s4] connectionLinks_status [OF s5] followerLinks_status [OF s6]
  show ?thesis
    by (simp add: extractFollowerCount_status extractConnectionCount_status)
qed

lemma extractDetails_result:
  assumes "extractDetails doc pd = Inr pd'"
  shows "\<exists>pd4. pd' = determineStatus pd4 \<and> extractionStatus pd4 = extractionStatus pd \<and>
           connectionCount pd4 = connectionCount pd \<and> followerCount pd4 = followerCount pd"
proof -
  from assms obtain pd1 pd2 pd3 pd4 where
    s1: "extractProfilePicture doc profileImgSelectors pd = Inr pd1" and
    s2: "extractAbout doc aboutSelectors pd1 = Inr pd2" and
    s3: "extractExperience doc pd2 = Inr pd3" and
    s4: "extractSkills doc pd3 = Inr pd4" and
    s5: "pd' = determineStatus pd4"
    unfolding extractDetails_def by (fastforce dest!: andThen_Inr)
  from extractProfilePicture_keeps [OF s1] extractAbout_keeps [OF s2]
    extractExperience_keeps [OF s3] extractSkills_keeps [OF s4] s5
  show ?thesis by auto
qed

subsection \<open>Running the extractor on the example page\<close>

lemma examplePage_counts:
  "extractCounts examplePage [] =
     Inr ((initialProfileData [])\<lparr>name := str ''Ada Lovelace'', bioLine := str ''Analyst'',
        headline := str ''Analyst'', bio := str ''Analyst'', connectionCount := 250000,
        followerCount := 500000\<rparr>)"
  by (simp add: extractCounts_def andThen_def nameSelectors_def headlineSelectors_def
      locationSelectors_def connectionSelectors_def followerSelectors_def examplePage_def
      querySelector_def querySelectorAll_def leaf_def str_def trim_def isWhiteSpace_def
      initialProfileData_def bullet_def toLowerCase_def lowerUnit_def matchNumber_def isDigit_def
      parseInt_def removeCommas_def fallbackCounts_def connectionLinks_def followerLinks_def)

lemma examplePage_body:
  "extractBody examplePage [] =
     Inr ((initialProfileData [])\<lparr>name := str ''Ada Lovelace'', bioLine := str ''Analyst'',
        headline := str ''Analyst'', bio := str ''Analyst'', connectionCount := 0,
        followerCount := 500000\<rparr>)"
  by (simp add: extractBody_def examplePage_counts andThen_def sanityCheck_def extractDetails_def
      profileImgSelectors_def aboutSelectors_def extractExperience_def extractSkills_def
      determineStatus_def examplePage_def querySelector_def querySelectorAll_def str_def
      initialProfileData_def)

subsection \<open>Claims about the extractor\<close>

text \<open>
  C6. The sanity check that closes the count extraction: in the record the extractor
  returns, a parsed connection count above 100,000 has become 0 and any other is kept;
  a parsed follower count above 50,000,000 has become 0 and any other is kept. The
  parsed counts are those of the record just before the check.
\<close>

theorem count_sanitization:
  assumes "extractLinkedInProfileAdvanced doc now nowCatch = Extracted pd"
  shows "\<exists>parsed. extractCounts doc now = Inr parsed \<and>
           connectionCount pd =
             (if 100000 < connectionCount parsed then 0 else connectionCount parsed) \<and>
           followerCount pd =
             (if 50000000 < followerCount parsed then 0 else followerCount parsed)"
proof -
  from assms have body: "extractBody doc now = Inr pd"
    by (auto simp: extractLinkedInProfileAdvanced_def split: sum.splits)
  then obtain parsed where
    parsed: "extractCounts doc now = Inr parsed" and
    rest: "extractDetails doc (sanityCheck parsed) = Inr pd"
    unfolding extractBody_def by (blast dest!: andThen_Inr)
  from extractDetails_result [OF rest] obtain pd4 where
    "pd = determineStatus pd4" and
    "connectionCount pd4 = connectionCount (sanityCheck parsed)" and
    "followerCount pd4 = followerCount (sanityCheck parsed)"
    by blast
  then have "connectionCount pd = connectionCount (sanityCheck parsed)"
    and "followerCount pd = followerCount (sanityCheck parsed)"
    by (simp_all add: determineStatus_counts)
  then have "connectionCount pd =
               (if 100000 < connectionCount parsed then 0 else connectionCount parsed)"
    and "followerCount pd =
               (if 50000000 < followerCount parsed then 0 else followerCount parsed)"
    by (simp_all add: sanityCheck_def Let_def)
  with parsed show ?thesis by blast
qed

theorem count_sanitization_witness:
  "\<exists>pd parsed. extractLinkedInProfileAdvanced examplePage [] [] = Extracted pd \<and>
     extractCounts examplePage [] = Inr parsed \<and>
     connectionCount parsed = 250000 \<and> connectionCount pd = 0 \<and>
     followerCount parsed = 500000 \<and> followerCount pd = 500000"
proof -
  define pd where "pd = (initialProfileData [])\<lparr>name := str ''Ada Lovelace'',
    bioLine := str ''Analyst'', headline := str ''Analyst'', bio := str ''Analyst'',
    connectionCount := 0, followerCount := 500000\<rparr>"
  have run: "extractLinkedInProfileAdvanced examplePage [] [] = Extracted pd"
    by (simp add: extractLinkedInProfileAdvanced_def examplePage_body pd_def)
  from count_sanitization [OF run] obtain parsed where
    parsed: "extractCounts examplePage [] = Inr parsed"
    by blast
  with examplePage_counts have "connectionCount parsed = 250000" and "followerCount parsed = 500000"
    by auto
  moreover have "connectionCount pd = 0" and "followerCount pd = 500000"
    by (simp_all add: pd_def)
  ultimately show ?thesis using run parsed by blast
qed

text \<open>
  C1, as amended. A record returned from the try block obeys the status rule: failed
  when the name is empty, partial when the name was read but neither bioLine nor
  location was, success otherwise. The record built by the catch block has the status
  failed, the name ``Extraction Failed'' and the bioLine ``Could not extract profile
  data''.
\<close>

theorem extraction_status_rule:
  "(case extractLinkedInProfileAdvanced doc now nowCatch of
      Extracted pd \<Rightarrow>
        extractionStatus pd =
          (if name pd = [] then str ''failed''
           else if bioLine pd = [] \<and> location pd = [] then str ''partial''
           else str ''success'') \<and>
        extractionStatus pd = statusRule (Extracted pd)
    | ExtractionFailed f \<Rightarrow>
        failureStatus f = str ''failed'' \<and> failureName f = str ''Extraction Failed'' \<and>
        failureBioLine f = str ''Could not extract profile data'')"
proof (cases "extractBody doc now")
  case (Inl msg)
  then show ?thesis by (simp add: extractLinkedInProfileAdvanced_def)
next
  case (Inr pd)
  then obtain parsed where
    parsed: "extractCounts doc now = Inr parsed" and
    rest: "extractDetails doc (sanityCheck parsed) = Inr pd"
    unfolding extractBody_def by (blast dest!: andThen_Inr)
  from extractDetails_result [OF rest] obtain pd4 where
    pd: "pd = determineStatus pd4" and
    "extractionStatus pd4 = extractionStatus (sanityCheck parsed)"
    by blast
  with extractCounts_status [OF parsed] have "extractionStatus pd4 = str ''success''"
    by (simp add: sanityCheck_status)
  with pd have "extractionStatus pd =
      (if name pd = [] then str ''failed''
       else if bioLine pd = [] \<and> location pd = [] then str ''partial''
       else str ''success'')"
    by (auto simp: determineStatus_def)
  with Inr show ?thesis
    by (simp add: extractLinkedInProfileAdvanced_def statusRule_def)
qed

theorem extraction_status_rule_witness:
  "\<exists>pd. extractLinkedInProfileAdvanced examplePage [] [] = Extracted pd \<and>
     name pd = str ''Ada Lovelace'' \<and> bioLine pd = str ''Analyst'' \<and>
     extractionStatus pd = str ''success''"
  using extraction_status_rule [of examplePage "[]" "[]"]
  by (simp add: extractLinkedInProfileAdvanced_def examplePage_body str_def)

text \<open>
  C1 as stated fails on the exception path: on a page whose queries throw, the returned
  record has a non-empty name and a non-empty bioLine, so the rule asks for success, and
  its status is failed.
\<close>

theorem status_rule_counterexample:
  "resultName (extractLinkedInProfileAdvanced throwingPage [] []) = str ''Extraction Failed'' \<and>
   resultBioLine (extractLinkedInProfileAdvanced throwingPage [] []) =
     str ''Could not extract profile data'' \<and>
   statusRule (extractLinkedInProfileAdvanced throwingPage [] []) = str ''success'' \<and>
   resultStatus (extractLinkedInProfileAdvanced throwingPage [] []) = str ''failed'' \<and>
   resultStatus (extractLinkedInProfileAdvanced throwingPage [] []) \<noteq>
     statusRule (extractLinkedInProfileAdvanced throwingPage [] [])"
  by (simp add: extractLinkedInProfileAdvanced_def extractBody_def extractCounts_def andThen_def
      nameSelectors_def querySelector_def throwingPage_def statusRule_def str_def)

subsection \<open>The background service worker and the popup\<close>

declare processAttempts.simps [simp del]
declare checkTabStatus.simps [simp del]

lemma closeTab_eq:
  "closeTab removal tabId s =
     (s\<lparr>activeTabs := setDelete tabId (activeTabs s)\<rparr>,
      [TabsRemove tabId, StateNow (s\<lparr>activeTabs := setDelete tabId (activeTabs s)\<rparr>)])"
  by (cases removal) (simp_all add: closeTab_def)

lemma tryAttempt_tracks:
  assumes "activeTabs s = []" and "tryAttempt url env tab s = (out, tab', s', ev)"
  shows "list_all (tracks s) (snapshots ev)"
    and "(case out of
            Returned r \<Rightarrow> s' = s
          | Threw msg \<Rightarrow> (s' = s \<and> tab' = tab) \<or> (\<exists>tabId. tab' = Some tabId \<and> s' = s\<lparr>activeTabs := [tabId]\<rparr>))"
  using assms
  by (auto simp: tryAttempt_def closeTab_eq Let_def setAdd_def setDelete_def tracks_def setSize_def
      split: sum.splits if_splits save_result.splits)

lemma snapshots_append: "snapshots (xs @ ys) = snapshots xs @ snapshots ys"
  by (induction xs rule: snapshots.induct) simp_all

lemma catchBlock_tracks:
  assumes "activeTabs s = []"
    and "(s' = s \<and> tab' = tab) \<or> (\<exists>tabId. tab' = Some tabId \<and> s' = s\<lparr>activeTabs := [tabId]\<rparr>)"
    and "catchBlock env retryCount msg tab' s' = (s'', evc)"
  shows "s'' = s" and "list_all (tracks s) (snapshots evc)"
  using assms
  by (auto simp: catchBlock_def closeTab_eq setHas_def setDelete_def tracks_def setSize_def
      split: option.splits if_splits)

lemma processAttempts_tracks:
  "activeTabs s = [] \<Longrightarrow> processAttempts url envs retryCount tab s = (r, sf, ev) \<Longrightarrow>
     sf = s \<and> list_all (tracks s) (snapshots ev)"
proof (induction url envs retryCount tab s arbitrary: r sf ev rule: processAttempts.induct)
  case (1 url envs retryCount tab s)
  show ?case
  proof (cases "retryCount < MAX_RETRIES")
    case False
    with "1.prems" show ?thesis by (simp add: processAttempts.simps)
  next
    case True
    obtain out tab' s' ev1 where att: "tryAttempt url (envs retryCount) tab s = (out, tab', s', ev1)"
      by (metis prod_cases4)
    note inv = tryAttempt_tracks [OF "1.prems"(1) att]
    show ?thesis
    proof (cases out)
      case (Returned res)
      with True att "1.prems"(2) have "r = res" "sf = s'" "ev = ev1"
        by (simp_all add: processAttempts.simps)
      with inv Returned show ?thesis by simp
    next
      case (Threw msg)
      obtain s'' evc where cb: "catchBlock (envs retryCount) retryCount msg tab' s' = (s'', evc)"
        by (metis surj_pair)
      from inv(2) Threw have shape:
        "(s' = s \<and> tab' = tab) \<or> (\<exists>tabId. tab' = Some tabId \<and> s' = s\<lparr>activeTabs := [tabId]\<rparr>)"
        by simp
      note cinv = catchBlock_tracks [OF "1.prems"(1) shape cb]
      obtain r2 sf2 ev2 where rec: "processAttempts url envs (Suc retryCount) tab' s'' = (r2, sf2, ev2)"
        by (metis prod_cases3)
      from True att Threw cb rec "1.prems"(2) have res: "r = r2" "sf = sf2" "ev = ev1 @ evc @ ev2"
        by (simp_all add: processAttempts.simps)
      from cinv(1) "1.prems"(1) have "activeTabs s'' = []" by simp
      from "1.IH" [OF True att [symmetric] Threw refl refl cb [symmetric] this rec]
      have "sf2 = s''" "list_all (tracks s'') (snapshots ev2)" by simp_all
      with cinv inv(1) res show ?thesis by (simp add: snapshots_append)
    qed
  qed
qed

lemma tracks_atMostOne:
  assumes "tracks s x" shows "atMostOne (isProcessing s) x"
proof -
  from assms have "x = s\<lparr>activeTabs := activeTabs x\<rparr>" and "setSize (activeTabs x) \<le> 1"
    by (simp_all add: tracks_def)
  then have "isProcessing x = isProcessing (s\<lparr>activeTabs := activeTabs x\<rparr>)" by simp
  with \<open>setSize (activeTabs x) \<le> 1\<close> show ?thesis by (simp add: atMostOne_def)
qed

lemma list_all_tracks_atMostOne:
  "list_all (tracks s) xs \<Longrightarrow> list_all (atMostOne (isProcessing s)) xs"
  by (induction xs) (auto dest: tracks_atMostOne)

lemma processSingleUrl_tracks:
  assumes "activeTabs s = []" and "processSingleUrl url envs s = (r, sf, ev)"
  shows "sf = s" and "list_all (atMostOne (isProcessing s)) (snapshots ev)"
proof -
  from assms(2) have run: "processAttempts url envs 0 None s = (r, sf, ev)"
    by (simp add: processSingleUrl_def)
  from processAttempts_tracks [OF assms(1) run]
  show "sf = s" and "list_all (atMostOne (isProcessing s)) (snapshots ev)"
    by (simp_all add: list_all_tracks_atMostOne)
qed

lemma batchIteration_inv:
  assumes "activeTabs s = []" and "batchIteration envs totalUrls i url s results = (results', s', ev)"
  shows "activeTabs s' = []" and "isProcessing s' = isProcessing s"
    and "list_all (atMostOne (isProcessing s)) (snapshots ev)"
proof -
  let ?s1 = "s\<lparr>processedCount := i + 1\<rparr>"
  obtain r s2 evp where run: "processSingleUrl url envs ?s1 = (r, s2, evp)"
    by (metis prod_cases3)
  have empty: "activeTabs ?s1 = []" using assms(1) by simp
  note inv = processSingleUrl_tracks [OF empty run]
  from inv(2) have evp: "list_all (atMostOne (isProcessing s)) (snapshots evp)" by simp
  have one: "atMostOne (isProcessing s) ?s1"
    using assms(1) by (simp add: atMostOne_def setSize_def)
  from assms(2) run inv(1) assms(1) evp one
  show "activeTabs s' = []" and "isProcessing s' = isProcessing s"
    and "list_all (atMostOne (isProcessing s)) (snapshots ev)"
    by (auto simp: batchIteration_def Let_def snapshots_append atMostOne_def setSize_def
        split: single_result.splits if_splits)
qed

lemma batchLoop_inv:
  "activeTabs s = [] \<Longrightarrow> batchLoop envs totalUrls i urls s results = (results', s', ev) \<Longrightarrow>
     activeTabs s' = [] \<and> isProcessing s' = isProcessing s \<and>
     list_all (atMostOne (isProcessing s)) (snapshots ev)"
proof (induction urls arbitrary: i s results results' s' ev)
  case Nil
  then show ?case by simp
next
  case (Cons url rest)
  obtain res1 s1 ev1 where it: "batchIteration (envs i) totalUrls i url s results = (res1, s1, ev1)"
    by (metis prod_cases3)
  note inv = batchIteration_inv [OF Cons.prems(1) it]
  show ?case
  proof (cases "isProcessing s1")
    case False
    with Cons.prems(2) it inv show ?thesis
      by (auto simp: snapshots_append)
  next
    case True
    obtain res2 s2 ev2 where rec: "batchLoop envs totalUrls (Suc i) rest s1 res1 = (res2, s2, ev2)"
      by (metis prod_cases3)
    from Cons.IH [OF inv(1) rec] inv(2)
    have "activeTabs s2 = []" "isProcessing s2 = isProcessing s"
      "list_all (atMostOne (isProcessing s)) (snapshots ev2)" by simp_all
    with Cons.prems(2) it rec True inv show ?thesis
      by (auto simp: snapshots_append)
  qed
qed

lemma handleStart_inv:
  assumes "activeTabs s = []" and "handleStartBatchProcessing envs startTime data s = (resp, s', ev)"
  shows "activeTabs s' = []" and "list_all (\<lambda>x. setSize (activeTabs x) \<le> 1) (snapshots ev)"
proof -
  have "activeTabs s' = [] \<and> list_all (\<lambda>x. setSize (activeTabs x) \<le> 1) (snapshots ev)"
  proof (cases "isProcessing s")
    case True
    with assms show ?thesis by (simp add: handleStartBatchProcessing_def)
  next
    case idle: False
    show ?thesis
    proof (cases data)
      case NoData
      with idle assms show ?thesis
        by (auto simp: handleStartBatchProcessing_def resetState_def setSize_def)
    next
      case (Data urlsOpt)
      show ?thesis
      proof (cases urlsOpt)
        case None
        with Data idle assms show ?thesis by (simp add: handleStartBatchProcessing_def)
      next
        case (Some urls)
        show ?thesis
        proof (cases urls)
          case Nil
          with Some Data idle assms show ?thesis by (simp add: handleStartBatchProcessing_def)
        next
          case (Cons u us)
          let ?s1 = "s\<lparr> isProcessing := True, currentBatch := u # us, processedCount := 0,
                          successCount := 0, errorCount := 0,
                          processingStartTime := Some startTime \<rparr>"
          obtain res s2 evb where run: "processBatchUrls envs (u # us) ?s1 = (res, s2, evb)"
            by (metis prod_cases3)
          have empty: "activeTabs ?s1 = []" using assms(1) by simp
          from batchLoop_inv [OF empty run [unfolded processBatchUrls_def]]
          have "list_all (atMostOne True) (snapshots evb)" by simp
          then have evb: "list_all (\<lambda>x. setSize (activeTabs x) \<le> 1) (snapshots evb)"
            by (induction evb rule: snapshots.induct) (simp_all add: atMostOne_def)
          from assms(2) idle Data Some Cons run
          have "s' = resetState s2" and "ev = [StateNow ?s1] @ evb @ [StateNow (resetState s2)]"
            by (auto simp: handleStartBatchProcessing_def Let_def)
          with evb assms(1) show ?thesis
            by (simp add: snapshots_append resetState_def setSize_def)
        qed
      qed
    qed
  qed
  then show "activeTabs s' = []" and "list_all (\<lambda>x. setSize (activeTabs x) \<le> 1) (snapshots ev)"
    by simp_all
qed


lemma complete_at_third:
  "waitForTabComplete (tabStatus goodEnv) TAB_TIMEOUT = Inr ()"
  by (simp add: waitForTabComplete_def checkTabStatus.simps goodEnv_def TAB_TIMEOUT_def str_def)


lemma goodEnv_fields:
  "tabsCreate goodEnv = Inr 7"
  "scriptResult goodEnv = Inr (Some examplePage)"
  "clock goodEnv = []"
  "clockCatch goodEnv = []"
  "fetchResult goodEnv = Inr createdResponse"
  "tabsRemove goodEnv = None"
  by (simp_all add: goodEnv_def)

lemma goodEnv_run:
  "processSingleUrl exampleUrl (\<lambda>k. goodEnv) idleState =
     (Saved exampleUrl (extractLinkedInProfileAdvanced examplePage [] []) (Some 1), idleState,
      [TabsCreate exampleUrl, StateNow (idleState\<lparr>activeTabs := [7]\<rparr>), Wait 5000, Wait 2000,
       ExecuteScript 7, Post exampleUrl (extractLinkedInProfileAdvanced examplePage [] []),
       TabsRemove 7, StateNow idleState])"
  by (simp add: processSingleUrl_def processAttempts.simps MAX_RETRIES_def tryAttempt_def
      complete_at_third Let_def extractProfileFromTab_def saveProfileToBackend_def closeTab_eq
      goodEnv_fields createdResponse_def idleState_def setAdd_def setDelete_def
      extractLinkedInProfileAdvanced_def examplePage_body str_def)

text \<open>
  A run that no other handler interrupts. From a state with no tracked tab, every state
  written during processSingleUrl and during a whole run of handleStartBatchProcessing has
  at most one tracked tab, and none is tracked when either returns: each attempt adds one
  id and every exit path deletes it.
\<close>

lemma uninterrupted_run_one_tab:
  assumes "activeTabs s = []"
  shows "list_all (\<lambda>x. setSize (activeTabs x) \<le> 1)
           (snapshots (snd (snd (processSingleUrl url attempts s)))) \<and>
         activeTabs (fst (snd (processSingleUrl url attempts s))) = [] \<and>
         list_all (\<lambda>x. setSize (activeTabs x) \<le> 1)
           (snapshots (snd (snd (handleStartBatchProcessing envs startTime data s)))) \<and>
         activeTabs (fst (snd (handleStartBatchProcessing envs startTime data s))) = []"
proof -
  obtain r sf ev where single: "processSingleUrl url attempts s = (r, sf, ev)"
    by (metis prod_cases3)
  from processSingleUrl_tracks [OF assms single]
  have "sf = s" and "list_all (atMostOne (isProcessing s)) (snapshots ev)" by simp_all
  then have one: "list_all (\<lambda>x. setSize (activeTabs x) \<le> 1) (snapshots ev)" and "activeTabs sf = []"
    using assms by (simp_all add: list_all_iff atMostOne_def)
  obtain resp s' evb where batch: "handleStartBatchProcessing envs startTime data s = (resp, s', evb)"
    by (metis prod_cases3)
  from handleStart_inv [OF assms batch] one \<open>activeTabs sf = []\<close> single batch
  show ?thesis by simp
qed

text \<open>
  A run on one URL that loads, extracts and saves: the tracked set is \<open>[7]\<close>, then empty.
\<close>

lemma uninterrupted_run_one_tab_example:
  "activeTabs idleState = [] \<and>
   snapshots (snd (snd (processSingleUrl exampleUrl (\<lambda>k. goodEnv) idleState))) =
     [idleState\<lparr>activeTabs := [7]\<rparr>, idleState] \<and>
   list_all (\<lambda>x. setSize (activeTabs x) \<le> 1)
     (snapshots (snd (snd (processSingleUrl exampleUrl (\<lambda>k. goodEnv) idleState)))) \<and>
   list_all (\<lambda>x. setSize (activeTabs x) \<le> 1)
     (snapshots (snd (snd (handleStartBatchProcessing (\<lambda>i k. goodEnv) 0
        (Data (Some [exampleUrl, exampleUrl, exampleUrl])) idleState))))"
proof -
  have empty: "activeTabs idleState = []" by (simp add: idleState_def)
  from uninterrupted_run_one_tab [OF empty, of exampleUrl "\<lambda>k. goodEnv" "\<lambda>i k. goodEnv" 0
      "Data (Some [exampleUrl, exampleUrl, exampleUrl])"] empty
  show ?thesis by (simp add: goodEnv_run)
qed







text \<open>
  C4. With fewer than 3 URLs in the queue, a click on the process button shows the
  warning and sends nothing to the background: the state is unchanged and no tab is
  opened.
\<close>

theorem short_queue_rejected:
  assumes "length (linkedinUrls popup) < 3"
  shows "processBtnClick popup = ShowWarning \<and>
         clickProcess envs startTime popup s = (None, s, []) \<and>
         tabsOpened (snd (snd (clickProcess envs startTime popup s))) = []"
  using assms by (simp add: processBtnClick_def clickProcess_def MIN_URLS_REQUIRED_def)

text \<open>A queue of two URLs.\<close>

theorem short_queue_rejected_witness:
  "length (linkedinUrls shortQueue) < 3 \<and>
   clickProcess (\<lambda>i k. goodEnv) 0 shortQueue idleState = (None, idleState, [])"
proof -
  have short: "length (linkedinUrls shortQueue) < 3" by (simp add: shortQueue_def)
  from short_queue_rejected [OF short, of "\<lambda>i k. goodEnv" 0 idleState] short
  show ?thesis by simp
qed

text \<open>
  While the running flag is set, a request to start a batch is answered with ``Batch
  processing already in progress''; the state is left as it is and nothing is done.
\<close>

lemma running_flag_rejects_start:
  assumes "isProcessing s"
  shows "handleStartBatchProcessing envs startTime data s =
           (Failure (str ''Batch processing already in progress''), s, [])"
  using assms by (simp add: handleStartBatchProcessing_def)

text \<open>A running job with one tracked tab.\<close>

lemma running_flag_rejects_start_example:
  "isProcessing runningState \<and>
   handleStartBatchProcessing (\<lambda>i k. goodEnv) 2000
       (Data (Some [exampleUrl, exampleUrl, exampleUrl])) runningState =
     (Failure (str ''Batch processing already in progress''), runningState, [])"
proof -
  have running: "isProcessing runningState" by (simp add: runningState_def)
  from running_flag_rejects_start [OF running] running show ?thesis by simp
qed

text \<open>
  C8, as amended. The listeners for uncaught errors and unhandled rejections leave the
  state as it is and call nothing, so they close no tab. resetState leaves the job marked
  not running, the batch, the counters and the tracked set empty and no start time; it
  only writes the state. It is called
  \<^item> by handleStartBatchProcessing when its body throws, which a start message without
    data makes it do, and nothing else is done then;
  \<^item> by handleStartBatchProcessing as its last step when the batch it accepted has
    completed;
  \<^item> by handleStopBatchProcessing, after it has marked the job not running and asked the
    browser to close every tracked tab;
  \<^item> by the onStartup listener, which does nothing else.
\<close>

theorem listeners_only_log:
  "errorListener s = (s, []) \<and> unhandledRejectionListener s = (s, []) \<and>
   resetState s = idleState \<and>
   handleStartBatchProcessing envs startTime NoData s =
     (if isProcessing s then (Failure (str ''Batch processing already in progress''), s, [])
      else (FailureTypeError, idleState, [StateNow idleState])) \<and>
   (\<exists>results ev.
      handleStartBatchProcessing envs startTime (Data (Some (u # us))) s =
        (if isProcessing s then (Failure (str ''Batch processing already in progress''), s, [])
         else (Completed results, idleState, ev @ [StateNow idleState]))) \<and>
   handleStopBatchProcessing s =
     (Stopped, idleState,
      [StateNow (s\<lparr>isProcessing := False\<rparr>)] @ map TabsRemove (activeTabs s) @ [StateNow idleState]) \<and>
   onStartupListener s = (idleState, [StateNow idleState])"
proof -
  have reset: "\<And>x. resetState x = idleState" by (simp add: resetState_def idleState_def)
  obtain results s2 ev where
    "processBatchUrls envs (u # us)
       (s\<lparr> isProcessing := True, currentBatch := u # us, processedCount := 0, successCount := 0,
           errorCount := 0, processingStartTime := Some startTime \<rparr>) = (results, s2, ev)"
    by (metis prod_cases3)
  then have "\<exists>results ev.
      handleStartBatchProcessing envs startTime (Data (Some (u # us))) s =
        (if isProcessing s then (Failure (str ''Batch processing already in progress''), s, [])
         else (Completed results, idleState, ev @ [StateNow idleState]))"
    by (cases "isProcessing s") (auto simp: handleStartBatchProcessing_def Let_def reset
        intro: exI [of _ "StateNow _ # _"])
  then show ?thesis
    by (simp add: errorListener_def unhandledRejectionListener_def reset
        handleStartBatchProcessing_def handleStopBatchProcessing_def onStartupListener_def)
qed

text \<open>
  C8 as stated fails: with a job running and tab 7 tracked, both listeners leave the job
  running and the tab tracked, and call nothing.
\<close>

theorem no_reset_counterexample:
  "fst (errorListener runningState) = runningState \<and>
   fst (unhandledRejectionListener runningState) = runningState \<and>
   snd (errorListener runningState) = [] \<and>
   snd (unhandledRejectionListener runningState) = [] \<and>
   isProcessing (fst (errorListener runningState)) \<and>
   activeTabs (fst (errorListener runningState)) = [7] \<and>
   fst (errorListener runningState) \<noteq> resetState runningState"
  by (simp add: errorListener_def unhandledRejectionListener_def runningState_def resetState_def)

lemma extraction_failure_record:
  "extractBody doc now = Inl msg \<Longrightarrow>
     extractLinkedInProfileAdvanced doc now nowCatch =
       ExtractionFailed
         \<lparr> failureName = str ''Extraction Failed'',
           failureBioLine = str ''Could not extract profile data'',
           failureStatus = str ''failed'', extractionError = msg,
           failureExtractedAt = nowCatch \<rparr>"
  by (simp add: extractLinkedInProfileAdvanced_def)

text \<open>
  C9. When the extractor's try block throws on the page of a tab that opened and
  loaded, the returned record is the catch block's, with the name ``Extraction Failed'';
  the name is not empty, so processSingleUrl posts this record to the backend and
  returns what the save gave: success when the backend stored it.
\<close>

theorem failed_extraction_is_posted:
  assumes "extractBody doc (clock env) = Inl msg"
    and "tabsCreate env = Inr tabId"
    and "waitForTabComplete (tabStatus env) TAB_TIMEOUT = Inr ()"
    and "scriptResult env = Inr (Some doc)"
    and "envs 0 = env"
  shows "extractLinkedInProfileAdvanced doc (clock env) (clockCatch env) =
           ExtractionFailed
             \<lparr> failureName = str ''Extraction Failed'',
               failureBioLine = str ''Could not extract profile data'',
               failureStatus = str ''failed'', extractionError = msg,
               failureExtractedAt = clockCatch env \<rparr> \<and>
         resultName (extractLinkedInProfileAdvanced doc (clock env) (clockCatch env)) \<noteq> [] \<and>
         Post url (extractLinkedInProfileAdvanced doc (clock env) (clockCatch env)) \<in>
           set (snd (snd (processSingleUrl url envs s))) \<and>
         fst (processSingleUrl url envs s) =
           (case saveProfileToBackend (fetchResult env) of
              SaveOk profileId \<Rightarrow>
                Saved url (extractLinkedInProfileAdvanced doc (clock env) (clockCatch env)) profileId
            | SaveFailed err \<Rightarrow>
                NotSaved (err \<noteq> [] \<and> jsIncludes err (str ''already exists'')) err)"
proof -
  note sentinel = extraction_failure_record [OF assms(1), of "clockCatch env"]
  have named: "resultName (extractLinkedInProfileAdvanced doc (clock env) (clockCatch env)) \<noteq> []"
    by (simp add: sentinel str_def)
  have extracted: "extractProfileFromTab env tabId =
      Inr (extractLinkedInProfileAdvanced doc (clock env) (clockCatch env))"
    by (simp add: extractProfileFromTab_def assms(4))
  show ?thesis
  proof (cases "saveProfileToBackend (fetchResult env)")
    case (SaveOk profileId)
    with assms(2,3,5) extracted named sentinel show ?thesis
      by (simp add: processSingleUrl_def processAttempts.simps MAX_RETRIES_def tryAttempt_def
          Let_def closeTab_eq)
  next
    case (SaveFailed err)
    with assms(2,3,5) extracted named sentinel show ?thesis
      by (simp add: processSingleUrl_def processAttempts.simps MAX_RETRIES_def tryAttempt_def
          Let_def closeTab_eq)
  qed
qed

text \<open>A page whose queries throw, behind a backend that answers 201.\<close>

theorem failed_extraction_is_posted_witness:
  "extractBody throwingPage (clock brokenPageEnv) = Inl (str ''querySelector failed'') \<and>
   tabsCreate brokenPageEnv = Inr 7 \<and>
   waitForTabComplete (tabStatus brokenPageEnv) TAB_TIMEOUT = Inr () \<and>
   scriptResult brokenPageEnv = Inr (Some throwingPage) \<and>
   Post exampleUrl (extractLinkedInProfileAdvanced throwingPage [] []) \<in>
     set (snd (snd (processSingleUrl exampleUrl (\<lambda>k. brokenPageEnv) idleState))) \<and>
   fst (processSingleUrl exampleUrl (\<lambda>k. brokenPageEnv) idleState) =
     Saved exampleUrl
       (ExtractionFailed
          \<lparr> failureName = str ''Extraction Failed'',
            failureBioLine = str ''Could not extract profile data'',
            failureStatus = str ''failed'', extractionError = str ''querySelector failed'',
            failureExtractedAt = [] \<rparr>) (Some 1)"
proof -
  have body: "extractBody throwingPage (clock brokenPageEnv) = Inl (str ''querySelector failed'')"
    by (simp add: extractBody_def extractCounts_def andThen_def nameSelectors_def
        querySelector_def throwingPage_def)
  have tab: "tabsCreate brokenPageEnv = Inr 7"
    by (simp add: brokenPageEnv_def goodEnv_def)
  have "tabStatus brokenPageEnv = tabStatus goodEnv"
    by (simp add: brokenPageEnv_def)
  then have wait: "waitForTabComplete (tabStatus brokenPageEnv) TAB_TIMEOUT = Inr ()"
    by (simp add: complete_at_third)
  have script: "scriptResult brokenPageEnv = Inr (Some throwingPage)"
    by (simp add: brokenPageEnv_def)
  have save: "saveProfileToBackend (fetchResult brokenPageEnv) = SaveOk (Some 1)"
    by (simp add: saveProfileToBackend_def brokenPageEnv_def goodEnv_def createdResponse_def)
  have clocks: "clock brokenPageEnv = []" "clockCatch brokenPageEnv = []"
    by (simp_all add: brokenPageEnv_def goodEnv_def)
  from failed_extraction_is_posted [OF body tab wait script refl, of exampleUrl idleState]
  have sentinel: "extractLinkedInProfileAdvanced throwingPage [] [] =
      ExtractionFailed
        \<lparr> failureName = str ''Extraction Failed'',
          failureBioLine = str ''Could not extract profile data'',
          failureStatus = str ''failed'', extractionError = str ''querySelector failed'',
          failureExtractedAt = [] \<rparr>"
    and posted: "Post exampleUrl (extractLinkedInProfileAdvanced throwingPage [] []) \<in>
      set (snd (snd (processSingleUrl exampleUrl (\<lambda>k. brokenPageEnv) idleState)))"
    and result: "fst (processSingleUrl exampleUrl (\<lambda>k. brokenPageEnv) idleState) =
      Saved exampleUrl (extractLinkedInProfileAdvanced throwingPage [] []) (Some 1)"
    by (auto simp: save clocks)
  from result have "fst (processSingleUrl exampleUrl (\<lambda>k. brokenPageEnv) idleState) =
      Saved exampleUrl
       (ExtractionFailed
          \<lparr> failureName = str ''Extraction Failed'',
            failureBioLine = str ''Could not extract profile data'',
            failureStatus = str ''failed'', extractionError = str ''querySelector failed'',
            failureExtractedAt = [] \<rparr>) (Some 1)"
    by (simp only: sentinel)
  with body tab wait script posted show ?thesis by blast
qed

text \<open>
  The minimum of three is the popup's. handleStartBatchProcessing, which only the popup
  calls, takes any list that is not empty and opens the first URL.
\<close>

lemma background_accepts_nonempty:
  assumes "\<not> isProcessing s"
  shows "\<exists>results s' ev.
           handleStartBatchProcessing envs startTime (Data (Some (u # us))) s =
             (Completed results, s', [StateNow (s\<lparr> isProcessing := True, currentBatch := u # us,
                 processedCount := 0, successCount := 0, errorCount := 0,
                 processingStartTime := Some startTime \<rparr>), StateNow (s\<lparr> isProcessing := True,
                 currentBatch := u # us, processedCount := 1, successCount := 0, errorCount := 0,
                 processingStartTime := Some startTime \<rparr>), ProgressUpdate 1 (Suc (length us)) u,
                 TabsCreate u] @ ev)"
proof -
  let ?s1 = "s\<lparr> isProcessing := True, currentBatch := u # us, processedCount := 0,
                 successCount := 0, errorCount := 0, processingStartTime := Some startTime \<rparr>"
  let ?s2 = "?s1\<lparr>processedCount := 0 + 1\<rparr>"
  obtain out tab' s' ev where att: "tryAttempt u (envs 0 0) None ?s2 = (out, tab', s', ev)"
    by (metis prod_cases4)
  then obtain ev' where ev: "ev = TabsCreate u # ev'"
    by (auto simp: tryAttempt_def Let_def closeTab_eq split: sum.splits if_splits save_result.splits)
  obtain r sf evs where single: "processSingleUrl u (envs 0) ?s2 = (r, sf, evs)"
    by (metis prod_cases3)
  with att ev obtain evs' where evs: "evs = TabsCreate u # evs'"
    by (auto simp: processSingleUrl_def processAttempts.simps [of u "envs 0" 0] MAX_RETRIES_def
        split: attempt_outcome.splits prod.splits)
  obtain res1 s1 ev1 where it:
    "batchIteration (envs 0) (length (u # us)) 0 u ?s1 (emptyResults (length (u # us))) = (res1, s1, ev1)"
    by (metis prod_cases3)
  with single evs obtain ev1' where ev1:
    "ev1 = [StateNow ?s2, ProgressUpdate 1 (Suc (length us)) u, TabsCreate u] @ ev1'"
    by (auto simp: batchIteration_def Let_def split: single_result.splits if_splits)
  obtain res2 s2 ev2 where loop: "processBatchUrls envs (u # us) ?s1 = (res2, s2, ev2)"
    by (metis prod_cases3)
  with it ev1 obtain ev2' where
    "ev2 = [StateNow ?s2, ProgressUpdate 1 (Suc (length us)) u, TabsCreate u] @ ev2'"
    by (auto simp: processBatchUrls_def split: if_splits prod.splits)
  with loop assms show ?thesis
    by (simp add: handleStartBatchProcessing_def Let_def)
qed

text \<open>
  During a run that no other handler interrupts, the job is marked running in every state
  written before the final reset.
\<close>

lemma running_throughout_batch:
  assumes "activeTabs s = []" and "\<not> isProcessing s"
    and "handleStartBatchProcessing envs startTime (Data (Some (u # us))) s = (resp, s', ev)"
  shows "list_all isProcessing (butlast (snapshots ev)) \<and> \<not> isProcessing s' \<and>
         last (snapshots ev) = s'"
proof -
  let ?s1 = "s\<lparr> isProcessing := True, currentBatch := u # us, processedCount := 0,
                 successCount := 0, errorCount := 0, processingStartTime := Some startTime \<rparr>"
  obtain res s2 evb where run: "processBatchUrls envs (u # us) ?s1 = (res, s2, evb)"
    by (metis prod_cases3)
  have empty: "activeTabs ?s1 = []" using assms(1) by simp
  from batchLoop_inv [OF empty run [unfolded processBatchUrls_def]]
  have "list_all (atMostOne True) (snapshots evb)" by simp
  then have evb: "list_all isProcessing (snapshots evb)"
    by (induction evb rule: snapshots.induct) (simp_all add: atMostOne_def)
  from assms(2,3) run
  have "s' = resetState s2" and "ev = [StateNow ?s1] @ evb @ [StateNow (resetState s2)]"
    by (auto simp: handleStartBatchProcessing_def Let_def)
  with evb show ?thesis
    by (simp add: snapshots_append butlast_append resetState_def)
qed

text \<open>
  The stop handler leaves the job marked not running and no tab tracked, wherever the run
  it stops is suspended.
\<close>

lemma stop_leaves_no_tracked_tab:
  "activeTabs (fst (snd (handleStopBatchProcessing s))) = [] \<and>
   \<not> isProcessing (fst (snd (handleStopBatchProcessing s)))"
  by (simp add: handleStopBatchProcessing_def resetState_def)

subsection \<open>A stop followed by a new start\<close>

text \<open>
  The parts of a run cut at the await, put together again with nothing in between, are
  the functions of the uninterrupted run.
\<close>

lemma tryAttempt_cut:
  "tryAttempt url env tab s =
     (case attemptUntilLoad url env s of
        (Inl msg, s1, ev1) \<Rightarrow> (Threw msg, tab, s1, ev1)
      | (Inr tabId, s1, ev1) \<Rightarrow>
          (case attemptFromLoad url env tabId s1 of
             (out, tab', s2, ev2) \<Rightarrow> (out, tab', s2, ev1 @ ev2)))"
  by (simp add: tryAttempt_def attemptUntilLoad_def attemptFromLoad_def Let_def closeTab_eq
      split: sum.splits save_result.splits)

lemma processAttempts_cut:
  "retryCount < MAX_RETRIES \<Longrightarrow>
     processAttempts url envs retryCount tab s =
       afterAttempt url envs retryCount (tryAttempt url (envs retryCount) tab s)"
  by (simp add: processAttempts.simps [of url envs retryCount] afterAttempt_def)

lemma afterAttempt_events:
  "afterAttempt url envs retryCount (out, tab, s, ev1 @ ev2) =
     (case afterAttempt url envs retryCount (out, tab, s, ev2) of (r, sf, ev) \<Rightarrow> (r, sf, ev1 @ ev))"
  by (simp add: afterAttempt_def split: attempt_outcome.splits prod.splits)

lemma batchIteration_cut:
  "batchIteration envs totalUrls i url s results =
     (case afterSingleUrl url results (processSingleUrl url envs (s\<lparr>processedCount := i + 1\<rparr>)) of
        (results', s', ev) \<Rightarrow>
          (results', s',
           [StateNow (s\<lparr>processedCount := i + 1\<rparr>), ProgressUpdate (i + 1) totalUrls url] @ ev))"
  by (simp add: batchIteration_def afterSingleUrl_def Let_def split: prod.splits single_result.splits)

lemma afterSingleUrl_events:
  "afterSingleUrl url results (r, s, ev1 @ ev2) =
     (case afterSingleUrl url results (r, s, ev2) of (results', s', ev) \<Rightarrow> (results', s', ev1 @ ev))"
  by (simp add: afterSingleUrl_def split: single_result.splits)

lemma batchLoop_cut:
  "batchLoop envs totalUrls i (url # rest) s results =
     afterIteration envs totalUrls i rest (batchIteration (envs i) totalUrls i url s results)"
  by (simp add: afterIteration_def)

lemma afterIteration_events:
  "afterIteration envs totalUrls i rest (results, s, ev1 @ ev2) =
     (case afterIteration envs totalUrls i rest (results, s, ev2) of
        (results', s', ev) \<Rightarrow> (results', s', ev1 @ ev))"
  by (simp add: afterIteration_def split: prod.splits)

text \<open>
  A start handler that reaches the await and is resumed on the state it left, with no
  other handler in between, is the whole run of handleStartBatchProcessing.
\<close>

lemma start_cut:
  assumes "startUntilLoad envs startTime data s = (AtLoadWait tabId, s3, ev1)"
  shows "\<exists>u us. data = Data (Some (u # us)) \<and>
           handleStartBatchProcessing envs startTime data s =
             (case resumeFromLoad envs u us tabId s3 of (r, s', ev2) \<Rightarrow> (r, s', ev1 @ ev2))"
proof -
  from assms obtain u us where data: "data = Data (Some (u # us))" and idle: "\<not> isProcessing s"
    and created: "tabsCreate (envs 0 0) = Inr tabId"
    by (auto simp: startUntilLoad_def Let_def split: bool.splits message_data.splits
        option.splits list.splits sum.splits prod.splits)
  let ?s1 = "s\<lparr> isProcessing := True, currentBatch := u # us, processedCount := 0,
                 successCount := 0, errorCount := 0, processingStartTime := Some startTime \<rparr>"
  let ?s2 = "?s1\<lparr>processedCount := 0 + 1\<rparr>"
  from assms data idle created
  have s3: "s3 = ?s2\<lparr>activeTabs := setAdd tabId (activeTabs ?s2)\<rparr>"
    and ev1: "ev1 = [StateNow ?s1, StateNow ?s2, ProgressUpdate (0 + 1) (length (u # us)) u,
                     TabsCreate u, StateNow s3]"
    by (auto simp: startUntilLoad_def attemptUntilLoad_def Let_def)
  have until: "attemptUntilLoad u (envs 0 0) ?s2 = (Inr tabId, s3, [TabsCreate u, StateNow s3])"
    using created s3 by (simp add: attemptUntilLoad_def)
  obtain out tab' s4 ev4 where rest: "attemptFromLoad u (envs 0 0) tabId s3 = (out, tab', s4, ev4)"
    by (metis prod_cases4)
  have attempt: "tryAttempt u (envs 0 0) None ?s2 = (out, tab', s4, [TabsCreate u, StateNow s3] @ ev4)"
    by (simp only: tryAttempt_cut until rest prod.case sum.case)
  have single: "processSingleUrl u (envs 0) ?s2 =
      (case afterAttempt u (envs 0) 0 (out, tab', s4, ev4) of
         (r, sf, ev) \<Rightarrow> (r, sf, [TabsCreate u, StateNow s3] @ ev))"
    unfolding processSingleUrl_def
    by (simp only: processAttempts_cut [of 0, unfolded MAX_RETRIES_def, simplified] attempt
        afterAttempt_events)
  obtain r sf ev5 where after: "afterAttempt u (envs 0) 0 (out, tab', s4, ev4) = (r, sf, ev5)"
    by (metis prod_cases3)
  obtain res6 s6 ev6 where
    url: "afterSingleUrl u (emptyResults (length (u # us))) (r, sf, ev5) = (res6, s6, ev6)"
    by (metis prod_cases3)
  have iteration:
    "batchIteration (envs 0) (length (u # us)) 0 u ?s1 (emptyResults (length (u # us))) =
      (res6, s6, [StateNow ?s2, ProgressUpdate (0 + 1) (length (u # us)) u, TabsCreate u,
                  StateNow s3] @ ev6)"
    using single after url afterSingleUrl_events [of u "emptyResults (length (u # us))" r sf
        "[TabsCreate u, StateNow s3]" ev5]
    by (simp add: batchIteration_cut)
  obtain res7 s7 ev7 where
    loop: "afterIteration envs (length (u # us)) 0 us (res6, s6, ev6) = (res7, s7, ev7)"
    by (metis prod_cases3)
  have batch: "processBatchUrls envs (u # us) ?s1 =
      (res7, s7, [StateNow ?s2, ProgressUpdate (0 + 1) (length (u # us)) u, TabsCreate u,
                  StateNow s3] @ ev7)"
    unfolding processBatchUrls_def batchLoop_cut iteration
    using loop afterIteration_events [of envs "length (u # us)" 0 us res6 s6
        "[StateNow ?s2, ProgressUpdate (0 + 1) (length (u # us)) u, TabsCreate u, StateNow s3]" ev6]
    by simp
  have whole: "handleStartBatchProcessing envs startTime data s =
      (Completed res7, resetState s7, ev1 @ ev7 @ [StateNow (resetState s7)])"
    using idle data batch ev1 by (simp add: handleStartBatchProcessing_def Let_def)
  have "resumeFromLoad envs u us tabId s3 =
      (Completed res7, resetState s7, ev7 @ [StateNow (resetState s7)])"
    by (simp only: resumeFromLoad_def rest after url loop afterBatch_def prod.case)
  with whole data show ?thesis by simp
qed

text \<open>The environments of the example schedule.\<close>

lemma closedTab_wait:
  "waitForTabComplete (tabStatus closedTabEnv) TAB_TIMEOUT =
     Inl (str ''Tab not found: No tab with id: 7.'')"
  by (simp add: waitForTabComplete_def checkTabStatus.simps closedTabEnv_def goodEnv_def
      TAB_TIMEOUT_def str_def)

lemma closedTab_fields:
  "tabsCreate closedTabEnv = Inr 7" "tabsRemove closedTabEnv = None"
  by (simp_all add: closedTabEnv_def goodEnv_def)

lemma envWithTab_wait:
  "waitForTabComplete (tabStatus (envWithTab tabId)) TAB_TIMEOUT = Inr ()"
  using complete_at_third by (simp add: envWithTab_def)

lemma envWithTab_fields:
  "tabsCreate (envWithTab tabId) = Inr tabId"
  "scriptResult (envWithTab tabId) = Inr (Some examplePage)"
  "clock (envWithTab tabId) = []"
  "clockCatch (envWithTab tabId) = []"
  "fetchResult (envWithTab tabId) = Inr createdResponse"
  "tabsRemove (envWithTab tabId) = None"
  by (simp_all add: envWithTab_def goodEnv_def)

lemma envWithTab_attempt:
  "tryAttempt url (envWithTab tabId) tab s =
     (Returned (Saved url (extractLinkedInProfileAdvanced examplePage [] []) (Some 1)), Some tabId,
      s\<lparr>activeTabs := setDelete tabId (setAdd tabId (activeTabs s))\<rparr>,
      [TabsCreate url, StateNow (s\<lparr>activeTabs := setAdd tabId (activeTabs s)\<rparr>), Wait 5000,
       Wait 2000, ExecuteScript tabId, Post url (extractLinkedInProfileAdvanced examplePage [] []),
       TabsRemove tabId, StateNow (s\<lparr>activeTabs := setDelete tabId (setAdd tabId (activeTabs s))\<rparr>)])"
  by (simp add: tryAttempt_def envWithTab_wait Let_def extractProfileFromTab_def
      saveProfileToBackend_def closeTab_eq envWithTab_fields createdResponse_def
      extractLinkedInProfileAdvanced_def examplePage_body str_def)

lemma exampleEnvs:
  "firstRunEnvs 0 0 = closedTabEnv"
  "firstRunEnvs 0 (Suc 0) = envWithTab 9"
  "firstRunEnvs (Suc 0) 0 = envWithTab 10"
  "firstRunEnvs (Suc (Suc 0)) 0 = envWithTab 11"
  "secondRunEnvs 0 0 = envWithTab 8"
  by (simp_all add: firstRunEnvs_def secondRunEnvs_def)

text \<open>
  The example schedule, step by step. Run A has opened tab 7 and waits for it to load.
  The stop request closes tab 7 and resets the state. The second start request finds the
  job marked not running, is accepted, opens tab 8 and waits for it to load. Run A then
  learns that tab 7 is gone, reports the failed attempt, finds tab 7 no longer in the set,
  waits two seconds and retries: it opens tab 9 and adds it to the set that holds run
  B's tab 8. After the URL it finds the job marked running, by run B, so it goes on with
  its second and third URL, and at its end resets the state that run B is working on.
\<close>

lemma exampleSchedule_run:
  "exampleSchedule =
     [(AtLoadWait 7,
       idleState\<lparr>isProcessing := True, currentBatch := [exampleUrl, secondUrl, thirdUrl],
                 processedCount := 1, activeTabs := [7], processingStartTime := Some 1000\<rparr>,
       [StateNow (idleState\<lparr>isProcessing := True,
                   currentBatch := [exampleUrl, secondUrl, thirdUrl],
                   processingStartTime := Some 1000\<rparr>),
        StateNow (idleState\<lparr>isProcessing := True,
                   currentBatch := [exampleUrl, secondUrl, thirdUrl], processedCount := 1,
                   processingStartTime := Some 1000\<rparr>),
        ProgressUpdate 1 3 exampleUrl, TabsCreate exampleUrl,
        StateNow (idleState\<lparr>isProcessing := True,
                   currentBatch := [exampleUrl, secondUrl, thirdUrl], processedCount := 1,
                   activeTabs := [7], processingStartTime := Some 1000\<rparr>)]),
      (Answered Stopped, idleState,
       [StateNow (idleState\<lparr>currentBatch := [exampleUrl, secondUrl, thirdUrl],
                   processedCount := 1, activeTabs := [7], processingStartTime := Some 1000\<rparr>),
        TabsRemove 7, StateNow idleState, StateNow idleState]),
      (AtLoadWait 8, secondJob 1 0 [8],
       [StateNow (secondJob 0 0 []), StateNow (secondJob 1 0 []),
        ProgressUpdate 1 3 exampleUrl, TabsCreate exampleUrl, StateNow (secondJob 1 0 [8])]),
      (Answered (Completed
         \<lparr> successful =
             [(exampleUrl, extractLinkedInProfileAdvanced examplePage [] [], Some 1),
              (secondUrl, extractLinkedInProfileAdvanced examplePage [] [], Some 1),
              (thirdUrl, extractLinkedInProfileAdvanced examplePage [] [], Some 1)],
           failed = [], skipped = [], summaryTotal = 3, summarySuccess = 3, summaryErrors = 0,
           summaryDuplicates = 0 \<rparr>),
       idleState,
       [ConsoleError 1 (str ''Tab not found: No tab with id: 7.''), Wait 2000,
        TabsCreate exampleUrl, StateNow (secondJob 1 0 [8, 9]), Wait 5000, Wait 2000,
        ExecuteScript 9, Post exampleUrl (extractLinkedInProfileAdvanced examplePage [] []),
        TabsRemove 9, StateNow (secondJob 1 0 [8]), StateNow (secondJob 1 1 [8]), Wait 3000,
        StateNow (secondJob 2 1 [8]), ProgressUpdate 2 3 secondUrl,
        TabsCreate secondUrl, StateNow (secondJob 2 1 [8, 10]), Wait 5000, Wait 2000,
        ExecuteScript 10, Post secondUrl (extractLinkedInProfileAdvanced examplePage [] []),
        TabsRemove 10, StateNow (secondJob 2 1 [8]), StateNow (secondJob 2 2 [8]), Wait 3000,
        StateNow (secondJob 3 2 [8]), ProgressUpdate 3 3 thirdUrl,
        TabsCreate thirdUrl, StateNow (secondJob 3 2 [8, 11]), Wait 5000, Wait 2000,
        ExecuteScript 11, Post thirdUrl (extractLinkedInProfileAdvanced examplePage [] []),
        TabsRemove 11, StateNow (secondJob 3 2 [8]), StateNow (secondJob 3 3 [8]),
        StateNow idleState])]"
  by (simp add: exampleSchedule_def stopThenRestart_def startUntilLoad_def attemptUntilLoad_def
      handleStopBatchProcessing_def resetState_def resumeFromLoad_def attemptFromLoad_def
      afterAttempt_def afterSingleUrl_def afterIteration_def afterBatch_def
      closedTab_wait closedTab_fields envWithTab_fields exampleEnvs catchBlock_def
      processAttempts.simps MAX_RETRIES_def envWithTab_attempt batchIteration_def
      processSingleUrl_def closeTab_eq setHas_def setAdd_def setDelete_def emptyResults_def
      idleState_def secondJob_def Let_def PROCESSING_DELAY_def)

text \<open>
  C2 fails on this schedule. The running flag and the tracked set in every state
  written, step by step: while run A waits, \<open>[7]\<close>; after the stop, nothing; while run B
  waits, \<open>[8]\<close>; and then, with the job marked running, run A's retry makes it \<open>[8, 9]\<close>,
  and its second and third URL \<open>[8, 10]\<close> and \<open>[8, 11]\<close>: two tracked tabs, where the
  configuration says \<open>MAX_CONCURRENT_TABS: 1\<close>. So not every state written has at most
  one tracked tab, as it has in a run that is not interrupted.
\<close>

theorem two_tabs_tracked_after_restart:
  "map (\<lambda>(progress, s, ev). trackedTabs ev) exampleSchedule =
     [[(True, []), (True, []), (True, [7])],
      [(False, [7]), (False, []), (False, [])],
      [(True, []), (True, []), (True, [8])],
      [(True, [8, 9]), (True, [8]), (True, [8]), (True, [8]),
       (True, [8, 10]), (True, [8]), (True, [8]), (True, [8]),
       (True, [8, 11]), (True, [8]), (True, [8]), (False, [])]] \<and>
   setSize [8, 9] = 2 \<and> setSize [8, 10] = 2 \<and> setSize [8, 11] = 2 \<and>
   \<not> list_all (\<lambda>x. setSize (activeTabs x) \<le> 1)
       (snapshots (concat (map (\<lambda>(progress, s, ev). ev) exampleSchedule)))"
  by (simp add: exampleSchedule_run trackedTabs_def idleState_def secondJob_def setSize_def)

text \<open>
  C7 fails on this schedule. With three URLs in the queue, the process button sends a
  start request when the popup shows no job and a stop request when it shows one. Run A
  has not answered when the stop request is answered, and the start request that follows
  is not rejected: it is handled up to its own await, with tab 8 open. Both runs are then
  in progress. The job that the state describes is run B's (started at 2000), and run A
  goes on to open all three of its URLs before it answers, leaving the job marked not
  running while run B still waits for its tab.
\<close>

theorem second_batch_runs_beside_first:
  "processBtnClick \<lparr> linkedinUrls = [exampleUrl, secondUrl, thirdUrl], popupIsProcessing = False \<rparr> =
     SendStart [exampleUrl, secondUrl, thirdUrl] \<and>
   processBtnClick \<lparr> linkedinUrls = [exampleUrl, secondUrl, thirdUrl], popupIsProcessing = True \<rparr> =
     SendStop \<and>
   map fst exampleSchedule =
     [AtLoadWait 7, Answered Stopped, AtLoadWait 8,
      Answered (Completed
         \<lparr> successful =
             [(exampleUrl, extractLinkedInProfileAdvanced examplePage [] [], Some 1),
              (secondUrl, extractLinkedInProfileAdvanced examplePage [] [], Some 1),
              (thirdUrl, extractLinkedInProfileAdvanced examplePage [] [], Some 1)],
           failed = [], skipped = [], summaryTotal = 3, summarySuccess = 3, summaryErrors = 0,
           summaryDuplicates = 0 \<rparr>)] \<and>
   map (\<lambda>(progress, s, ev). (isProcessing s, processingStartTime s)) exampleSchedule =
     [(True, Some 1000), (False, None), (True, Some 2000), (False, None)] \<and>
   map (\<lambda>(progress, s, ev). tabsOpened ev) exampleSchedule =
     [[exampleUrl], [], [exampleUrl], [exampleUrl, secondUrl, thirdUrl]]"
  by (simp add: exampleSchedule_run processBtnClick_def MIN_URLS_REQUIRED_def idleState_def
      secondJob_def)

subsection \<open>The backend\<close>

lemma beforeValidate_status:
  "bodyExtractionStatus (beforeValidate profile) = bodyExtractionStatus profile"
  by (simp add: beforeValidate_def split: option.splits)

lemma profileCreate_status:
  assumes "profileCreate lib now store vals = Inr (row, store')"
  shows "rowExtractionStatus row =
           (case bodyExtractionStatus vals of
              None \<Rightarrow> str ''pending''
            | Some st \<Rightarrow> if st = [] then str ''pending'' else st)"
  using assms
  by (auto simp: profileCreate_def Let_def beforeValidate_status
      split: if_splits option.splits prod.splits)

lemma profileCreate_valid_status:
  assumes "profileCreate lib now store vals = Inr (row, store')"
  shows "bodyExtractionStatus vals = None \<or> (\<exists>st \<in> set allowedStatuses. bodyExtractionStatus vals = Some st)"
proof -
  from assms have "modelErrors lib (beforeValidate vals) = []"
    by (auto simp: profileCreate_def Let_def split: if_splits)
  then have "(case bodyExtractionStatus (beforeValidate vals) of
        None \<Rightarrow> []
      | Some st \<Rightarrow> if st \<in> set allowedStatuses then [] else [str ''extractionStatus'']) = []"
    by (simp add: modelErrors_def)
  then show ?thesis
    by (auto simp: beforeValidate_status split: option.splits if_splits)
qed

lemma createReply_created:
  "createReply store created = (Reply201 row, store') \<Longrightarrow> created = Inr (row, store')"
  by (auto simp: createReply_def split: sum.splits create_error.splits prod.splits)

lemma createProfile_status:
  assumes "createProfile lib now store body = (Reply201 row, store')"
  shows "rowExtractionStatus row = orString (bodyExtractionStatus body) (str ''success'')"
proof -
  from assms obtain vals where
    created: "profileCreate lib now store vals = Inr (row, store')" and
    vals: "bodyExtractionStatus vals = Some (orString (bodyExtractionStatus body) (str ''success''))"
    by (auto simp: createProfile_def split: if_splits option.splits dest!: createReply_created)
  have "orString (bodyExtractionStatus body) (str ''success'') \<noteq> []"
    by (simp add: orString_def str_def split: option.splits)
  with profileCreate_status [OF created] vals show ?thesis by simp
qed

lemma postApiProfiles_status:
  assumes "postApiProfiles lib now store body = (Reply201 row, store')"
  shows "rowExtractionStatus row = orString (bodyExtractionStatus body) (str ''success'')"
proof -
  from assms obtain vals where
    created: "profileCreate lib now store vals = Inr (row, store')" and
    vals: "bodyExtractionStatus vals = Some (orString (bodyExtractionStatus body) (str ''success''))"
    by (auto simp: postApiProfiles_def split: if_splits option.splits dest!: createReply_created)
  have "orString (bodyExtractionStatus body) (str ''success'') \<noteq> []"
    by (simp add: orString_def str_def split: option.splits)
  with profileCreate_status [OF created] vals show ?thesis by simp
qed

lemma postProfilesRoute_status:
  assumes "postProfilesRoute lib now store body = (Reply201 row, store')"
  shows "rowExtractionStatus row = orString (bodyExtractionStatus body) (str ''success'')"
proof -
  from assms have "createProfile lib now store (sanitizeBody lib body) = (Reply201 row, store')"
    by (auto simp: postProfilesRoute_def validateProfile_def split: if_splits)
  from createProfile_status [OF this] show ?thesis
    by (simp add: sanitizeBody_def)
qed

lemma allowed_nonempty: "v \<in> set allowedStatuses \<Longrightarrow> v \<noteq> []"
  by (auto simp: allowedStatuses_def str_def)

text \<open>
  C10. Whenever POST /profiles creates a record (through the route with validateProfile,
  through the handler in the server file, or through the controller alone), its
  extractionStatus is success when the request has no extractionStatus, and is the
  request's value when that is one of pending, success, failed, partial.
\<close>

theorem created_status_default_and_verbatim:
  assumes "postProfilesRoute lib now store body = (Reply201 row, store') \<or>
           postApiProfiles lib now store body = (Reply201 row, store') \<or>
           createProfile lib now store body = (Reply201 row, store')"
  shows "(bodyExtractionStatus body = None \<longrightarrow> rowExtractionStatus row = str ''success'') \<and>
         (\<forall>v. v \<in> set allowedStatuses \<and> bodyExtractionStatus body = Some v \<longrightarrow>
              rowExtractionStatus row = v)"
proof -
  from assms have "rowExtractionStatus row = orString (bodyExtractionStatus body) (str ''success'')"
    by (auto dest: postProfilesRoute_status postApiProfiles_status createProfile_status)
  then show ?thesis
    by (auto simp: orString_def dest: allowed_nonempty)
qed

lemma route_creates_with_success:
  "postProfilesRoute plainValidator 5 emptyStore (minimalBody (str ''Ada'') exampleUrl) =
     (Reply201 (storedAda exampleUrl (str ''success'') 5), storeWithAda exampleUrl (str ''success'') 5)"
  by (simp add: postProfilesRoute_def validateProfile_def validationErrors_def sanitizeBody_def
      bodyLengthErrors_def createProfile_def falsy_def findByUrl_def orString_def orNumber_def
      createReply_def profileCreate_def beforeValidate_def modelErrors_def lengthErrors_def
      printsAsInteger_def startsWith_def Let_def plainValidator_def emptyStore_def minimalBody_def storedAda_def
      storeWithAda_def exampleUrl_def trim_def isWhiteSpace_def allowedStatuses_def str_def)

lemma handler_stores_pending:
  "postApiProfiles plainValidator 5 emptyStore
       ((minimalBody (str ''Ada'') exampleUrl)\<lparr>bodyExtractionStatus := Some (str ''pending'')\<rparr>) =
     (Reply201 (storedAda exampleUrl (str ''pending'') 5), storeWithAda exampleUrl (str ''pending'') 5)"
  by (simp add: postApiProfiles_def falsy_def findByUrl_def orString_def orNumber_def orNull_def
      createReply_def profileCreate_def beforeValidate_def modelErrors_def lengthErrors_def
      printsAsInteger_def startsWith_def Let_def plainValidator_def emptyStore_def minimalBody_def storedAda_def
      storeWithAda_def exampleUrl_def isWhiteSpace_def allowedStatuses_def str_def)

text \<open>
  A request without a status through the route, and one with the status pending through
  the server's handler.
\<close>

theorem created_status_default_and_verbatim_witness:
  "postProfilesRoute plainValidator 5 emptyStore (minimalBody (str ''Ada'') exampleUrl) =
     (Reply201 (storedAda exampleUrl (str ''success'') 5), storeWithAda exampleUrl (str ''success'') 5) \<and>
   bodyExtractionStatus (minimalBody (str ''Ada'') exampleUrl) = None \<and>
   rowExtractionStatus (storedAda exampleUrl (str ''success'') 5) = str ''success'' \<and>
   postApiProfiles plainValidator 5 emptyStore
       ((minimalBody (str ''Ada'') exampleUrl)\<lparr>bodyExtractionStatus := Some (str ''pending'')\<rparr>) =
     (Reply201 (storedAda exampleUrl (str ''pending'') 5), storeWithAda exampleUrl (str ''pending'') 5) \<and>
   str ''pending'' \<in> set allowedStatuses \<and>
   rowExtractionStatus (storedAda exampleUrl (str ''pending'') 5) = str ''pending''"
proof -
  have omitted: "bodyExtractionStatus (minimalBody (str ''Ada'') exampleUrl) = None"
    by (simp add: minimalBody_def)
  have allowed: "str ''pending'' \<in> set allowedStatuses"
    by (simp add: allowedStatuses_def)
  from created_status_default_and_verbatim [OF disjI1, OF route_creates_with_success] omitted
  have first: "rowExtractionStatus (storedAda exampleUrl (str ''success'') 5) = str ''success''"
    by blast
  from created_status_default_and_verbatim [OF disjI2, OF disjI1, OF handler_stores_pending] allowed
  have second: "rowExtractionStatus (storedAda exampleUrl (str ''pending'') 5) = str ''pending''"
    by simp
  from route_creates_with_success handler_stores_pending omitted allowed first second
  show ?thesis by blast
qed

lemma find_append_none:
  "find P xs = None \<Longrightarrow> P y \<Longrightarrow> find P (xs @ [y]) = Some y"
  by (induction xs) (auto split: if_splits)

lemma beforeValidate_keeps_http:
  "bodyUrl profile = Some u \<Longrightarrow> startsWith u (str ''http'') \<Longrightarrow> beforeValidate profile = profile"
  by (simp add: beforeValidate_def)

lemma profileCreate_appends:
  assumes "profileCreate lib now store vals = Inr (row, store')"
  shows "storedRows store' = storedRows store @ [row] \<and>
         Some (rowUrl row) = bodyUrl (beforeValidate vals) \<and>
         \<not> list_ex (\<lambda>r. rowUrl r = rowUrl row) (storedRows store)"
  using assms
  by (auto simp: profileCreate_def Let_def split: if_splits option.splits prod.splits)

text \<open>
  For a URL that starts with \<open>http\<close> the second submission is the duplicate the
  controller looks for: 409 with the id of the record the first one created, and the
  store as it was.
\<close>

lemma second_submission_is_duplicate:
  assumes "createProfile lib now store body1 = (Reply201 row, store1)"
    and "bodyUrl body1 = Some u" and "startsWith u (str ''http'')"
    and "bodyUrl body2 = Some u" and "\<not> falsy (bodyName body2)"
  shows "createProfile lib now2 store1 body2 = (Reply409 (rowId row) (rowName row) u, store1)"
proof -
  from assms(1) obtain vals where
    created: "profileCreate lib now store vals = Inr (row, store1)" and
    vals: "bodyUrl vals = bodyUrl body1" and
    absent: "findByUrl store (orString (bodyUrl body1) []) = None"
    by (auto simp: createProfile_def split: if_splits option.splits dest!: createReply_created)
  from assms(1,2) have nonempty: "u \<noteq> []"
    by (auto simp: createProfile_def falsy_def split: if_splits)
  from vals assms(2,3) have "beforeValidate vals = vals"
    by (simp add: beforeValidate_keeps_http)
  with profileCreate_appends [OF created] vals assms(2)
  have rows: "storedRows store1 = storedRows store @ [row]" and url: "rowUrl row = u"
    by simp_all
  from absent assms(2) nonempty have "find (\<lambda>r. rowUrl r = u) (storedRows store) = None"
    by (simp add: findByUrl_def orString_def)
  from find_append_none [OF this, of row] url rows
  have "findByUrl store1 u = Some row"
    by (simp add: findByUrl_def)
  with assms(4,5) nonempty url show ?thesis
    by (simp add: createProfile_def falsy_def orString_def)
qed

text \<open>
  C5 at a URL without a scheme. The first request is stored under the URL with
  \<open>https://\<close> in front, which the hook beforeValidate adds after the controller has
  looked for the URL as sent. The second request with the same URL is again not found,
  the insert meets the unique index, and the reply is 500, not 409. The store keeps its
  one record.
\<close>

theorem unprefixed_url_duplicate_not_detected:
  "createProfile plainValidator 5 emptyStore (minimalBody (str ''Ada'') unprefixedUrl) =
     (Reply201 (storedAda (str ''https://linkedin.com/in/ada'') (str ''success'') 5),
      storeWithAda (str ''https://linkedin.com/in/ada'') (str ''success'') 5) \<and>
   createProfile plainValidator 6 (storeWithAda (str ''https://linkedin.com/in/ada'') (str ''success'') 5)
       (minimalBody (str ''Ada'') unprefixedUrl) =
     (Reply500, storeWithAda (str ''https://linkedin.com/in/ada'') (str ''success'') 5) \<and>
   postProfilesRoute plainValidator 6
       (storeWithAda (str ''https://linkedin.com/in/ada'') (str ''success'') 5)
       (minimalBody (str ''Ada'') unprefixedUrl) =
     (Reply500, storeWithAda (str ''https://linkedin.com/in/ada'') (str ''success'') 5) \<and>
   postApiProfiles plainValidator 6
       (storeWithAda (str ''https://linkedin.com/in/ada'') (str ''success'') 5)
       (minimalBody (str ''Ada'') unprefixedUrl) =
     (Reply500, storeWithAda (str ''https://linkedin.com/in/ada'') (str ''success'') 5)"
  by (simp add: postProfilesRoute_def validateProfile_def validationErrors_def sanitizeBody_def
      bodyLengthErrors_def postApiProfiles_def orNull_def
      createProfile_def falsy_def findByUrl_def orString_def orNumber_def
      createReply_def profileCreate_def beforeValidate_def modelErrors_def lengthErrors_def
      printsAsInteger_def startsWith_def Let_def plainValidator_def emptyStore_def minimalBody_def storedAda_def
      storeWithAda_def unprefixedUrl_def trim_def isWhiteSpace_def allowedStatuses_def str_def)

end
